theory Spec2Isabelle
  imports Main "HOL-Library.AList" "HOL-Library.Monad_Syntax"
begin

section \<open>JSON documents and their decoding into Go structs\<close>

text \<open>
  The program reads JSON in five places (the usage header, the error envelope, the page
  envelope, the token and identity responses, the shared credential file), always through
  \<^verbatim>\<open>json.Unmarshal\<close> into a struct. The text-to-document step of the library is not
  unfolded: a byte string comes with the document the library reads from it (\<open>doc\<close>,
  \<open>None\<close> when the library refuses the bytes: they are not valid JSON, or nested deeper
  than it goes). A number is kept as an integer when its literal is one, as its
  text otherwise (a fraction or an exponent). An object is the list of its members in the
  order of the text, repeated names included.
\<close>

datatype json =
    JNull
  | JBool bool
  | JNum int
  | JFloat string
  | JStr string
  | JArr "json list"
  | JObj "(string \<times> json) list"

record payload =
  raw :: string
  doc :: "json option"

text \<open>
  The document-to-struct step follows the library. The members of an object are stored one
  after the other, in the order of the text, into the struct, which starts from its zero
  value. A member goes to the field whose name it has when letter case is folded: the ASCII
  letters, and the two other characters that fold to one, the Kelvin sign (E2 84 AA in
  UTF-8) to \<open>k\<close> and the long s (C5 BF) to \<open>s\<close>. A member with no field is skipped. \<open>null\<close>
  leaves a number or a string as it is and resets a pointer or a slice; a later member of
  the same name overwrites an earlier one, and an object stored through a pointer that is
  already set is merged into the struct it points to. A value of the wrong JSON kind, or a
  number that is no 64-bit integer, makes Unmarshal return an error (\<open>None\<close>): the program
  never looks at the struct then. At the top level \<open>null\<close> leaves the zero struct, and
  anything else than an object is an error. The type \<^verbatim>\<open>int\<close> has 64 bits.
\<close>

definition lower :: "char \<Rightarrow> char" where
  "lower c =
     (let n = (of_char c :: nat) in
      if 65 \<le> n \<and> n \<le> 90 then ''abcdefghijklmnopqrstuvwxyz'' ! (n - 65) else c)"

fun fold_name :: "string \<Rightarrow> string" where
  "fold_name [] = []"
| "fold_name [a] = [lower a]"
| "fold_name [a, b] =
     (if a = CHR 0xC5 \<and> b = CHR 0xBF then ''s'' else lower a # fold_name [b])"
| "fold_name (a # b # c # cs) =
     (if a = CHR 0xE2 \<and> b = CHR 0x84 \<and> c = CHR 0xAA then CHR ''k'' # fold_name cs
      else if a = CHR 0xC5 \<and> b = CHR 0xBF then CHR ''s'' # fold_name (c # cs)
      else lower a # fold_name (b # c # cs))"

fun members :: "json \<Rightarrow> (string \<times> json) list option" where
  "members JNull = Some []"
| "members (JObj ms) = Some ms"
| "members _ = None"

text \<open>
  \<open>decode_members field ms s\<close> stores the members \<open>ms\<close> into the struct \<open>s\<close>; \<open>field\<close>
  stores one value into the field of a folded name.
\<close>

fun decode_members ::
  "(string \<Rightarrow> json \<Rightarrow> 's \<Rightarrow> 's option) \<Rightarrow> (string \<times> json) list \<Rightarrow> 's \<Rightarrow> 's option"
where
  "decode_members field [] s = Some s"
| "decode_members field (m # ms) s =
     (case field (fold_name (fst m)) (snd m) s of
        None \<Rightarrow> None
      | Some s' \<Rightarrow> decode_members field ms s')"

definition fits_int64 :: "int \<Rightarrow> bool" where
  "fits_int64 n = (- 9223372036854775808 \<le> n \<and> n \<le> 9223372036854775807)"

text \<open>Storing a value into a field that holds \<open>cur\<close>: a number, a string, a pointer to a struct.\<close>

fun store_int :: "json \<Rightarrow> int \<Rightarrow> int option" where
  "store_int JNull cur = Some cur"
| "store_int (JNum n) cur = (if fits_int64 n then Some n else None)"
| "store_int _ cur = None"

fun store_string :: "json \<Rightarrow> string \<Rightarrow> string option" where
  "store_string JNull cur = Some cur"
| "store_string (JStr s) cur = Some s"
| "store_string _ cur = None"

fun store_ptr ::
  "((string \<times> json) list \<Rightarrow> 's \<Rightarrow> 's option) \<Rightarrow> 's \<Rightarrow> json \<Rightarrow> 's option \<Rightarrow> 's option option"
where
  "store_ptr dec zero JNull cur = Some None"
| "store_ptr dec zero (JObj ms) cur =
     map_option Some (dec ms (case cur of None \<Rightarrow> zero | Some s \<Rightarrow> s))"
| "store_ptr dec zero _ cur = None"

subsection \<open>The structs of package api\<close>

record MetaError =
  Code :: int
  Message :: string
  Type :: string
  Subcode :: int

definition zero_MetaError :: MetaError where
  "zero_MetaError = \<lparr>Code = 0, Message = [], Type = [], Subcode = 0\<rparr>"

definition MetaError_field :: "string \<Rightarrow> json \<Rightarrow> MetaError \<Rightarrow> MetaError option" where
  "MetaError_field name v e =
     (if name = ''code'' then map_option (\<lambda>n. e\<lparr>Code := n\<rparr>) (store_int v (Code e))
      else if name = ''message'' then map_option (\<lambda>s. e\<lparr>Message := s\<rparr>) (store_string v (Message e))
      else if name = ''type'' then map_option (\<lambda>s. e\<lparr>Type := s\<rparr>) (store_string v (Type e))
      else if name = ''error_subcode'' then map_option (\<lambda>n. e\<lparr>Subcode := n\<rparr>) (store_int v (Subcode e))
      else Some e)"

definition unmarshal_MetaError :: "(string \<times> json) list \<Rightarrow> MetaError \<Rightarrow> MetaError option" where
  "unmarshal_MetaError ms e = decode_members MetaError_field ms e"

text \<open>
  \<^verbatim>\<open>var errResp struct { Error *MetaError `json:"error"` }\<close>: the outer option is the
  error of Unmarshal (\<open>None\<close>), the inner one the pointer (\<open>None\<close> is \<^verbatim>\<open>nil\<close>).
\<close>

definition errResp_field :: "string \<Rightarrow> json \<Rightarrow> MetaError option \<Rightarrow> MetaError option option" where
  "errResp_field name v p =
     (if name = ''error'' then store_ptr unmarshal_MetaError zero_MetaError v p else Some p)"

definition unmarshal_errResp :: "payload \<Rightarrow> MetaError option option" where
  "unmarshal_errResp b =
     do {
       j \<leftarrow> doc b;
       ms \<leftarrow> members j;
       decode_members errResp_field ms None
     }"

record Cursors =
  Before :: string
  After :: string

record Paging =
  Cursors :: "Cursors option"
  Next :: string
  Previous :: string

record page =
  Data :: "json list"
  Paging :: "Paging option"

definition Cursors_field :: "string \<Rightarrow> json \<Rightarrow> Cursors \<Rightarrow> Cursors option" where
  "Cursors_field name v c =
     (if name = ''before'' then map_option (\<lambda>s. c\<lparr>Before := s\<rparr>) (store_string v (Before c))
      else if name = ''after'' then map_option (\<lambda>s. c\<lparr>After := s\<rparr>) (store_string v (After c))
      else Some c)"

definition Paging_field :: "string \<Rightarrow> json \<Rightarrow> Paging \<Rightarrow> Paging option" where
  "Paging_field name v p =
     (if name = ''cursors''
      then map_option (\<lambda>c. p\<lparr>Cursors := c\<rparr>)
             (store_ptr (decode_members Cursors_field) \<lparr>Before = [], After = []\<rparr> v (Cursors p))
      else if name = ''next'' then map_option (\<lambda>s. p\<lparr>Next := s\<rparr>) (store_string v (Next p))
      else if name = ''previous'' then map_option (\<lambda>s. p\<lparr>Previous := s\<rparr>) (store_string v (Previous p))
      else Some p)"

text \<open>
  \<^verbatim>\<open>Data []json.RawMessage\<close>: an array replaces the slice, and each of its elements is
  kept as it is.
\<close>

fun store_raw_list :: "json \<Rightarrow> json list \<Rightarrow> json list option" where
  "store_raw_list JNull cur = Some []"
| "store_raw_list (JArr xs) cur = Some xs"
| "store_raw_list _ cur = None"

definition page_field :: "string \<Rightarrow> json \<Rightarrow> page \<Rightarrow> page option" where
  "page_field name v pg =
     (if name = ''data'' then map_option (\<lambda>d. pg\<lparr>Data := d\<rparr>) (store_raw_list v (Data pg))
      else if name = ''paging''
      then map_option (\<lambda>p. pg\<lparr>Paging := p\<rparr>)
             (store_ptr (decode_members Paging_field) \<lparr>Cursors = None, Next = [], Previous = []\<rparr> v
                (Paging pg))
      else Some pg)"

definition unmarshal_page :: "payload \<Rightarrow> page option" where
  "unmarshal_page b =
     do {
       j \<leftarrow> doc b;
       ms \<leftarrow> members j;
       decode_members page_field ms \<lparr>Data = [], Paging = None\<rparr>
     }"

record app_usage =
  CallCount :: int
  TotalCPUTime :: int
  TotalTime :: int

definition usage_field :: "string \<Rightarrow> json \<Rightarrow> app_usage \<Rightarrow> app_usage option" where
  "usage_field name v u =
     (if name = ''call_count'' then map_option (\<lambda>n. u\<lparr>CallCount := n\<rparr>) (store_int v (CallCount u))
      else if name = ''total_cputime''
      then map_option (\<lambda>n. u\<lparr>TotalCPUTime := n\<rparr>) (store_int v (TotalCPUTime u))
      else if name = ''total_time'' then map_option (\<lambda>n. u\<lparr>TotalTime := n\<rparr>) (store_int v (TotalTime u))
      else Some u)"

definition unmarshal_usage :: "payload \<Rightarrow> app_usage option" where
  "unmarshal_usage b =
     do {
       j \<leftarrow> doc b;
       ms \<leftarrow> members j;
       decode_members usage_field ms \<lparr>CallCount = 0, TotalCPUTime = 0, TotalTime = 0\<rparr>
     }"

section \<open>Errors, formatting and the world the program runs in\<close>

text \<open>
  A Go \<^verbatim>\<open>error\<close> is a value: \<open>Errorf\<close> is \<^verbatim>\<open>fmt.Errorf\<close> of a plain message, \<open>Wrap\<close> is
  \<^verbatim>\<open>fmt.Errorf("...: %w", err)\<close>, \<open>ApiError\<close> is a \<^verbatim>\<open>*MetaError\<close>, \<open>Lib\<close> is an error
  made by a library (net/http, io, net/url, os) with its message, \<open>Json\<close> is the error
  that \<^verbatim>\<open>json.Unmarshal\<close> returns for a target, named by its type, and the bytes it is
  given, and \<open>Panic\<close> is a run-time panic.
\<close>

datatype error =
    Errorf string
  | Wrap string error
  | ApiError MetaError
  | Lib string
  | Json string payload
  | Panic string

definition digit :: "nat \<Rightarrow> char" where
  "digit n = ''0123456789'' ! (n mod 10)"

fun digits_of :: "nat \<Rightarrow> string" where
  "digits_of n = (if n < 10 then [digit n] else digits_of (n div 10) @ [digit n])"

declare digits_of.simps [simp del]

text \<open>The verb \<^verbatim>\<open>%d\<close> of package fmt.\<close>

definition fmt_d :: "int \<Rightarrow> string" where
  "fmt_d n = (if n < 0 then CHR ''-'' # digits_of (nat (- n)) else digits_of (nat n))"

text \<open>The em dash of the program's messages, in UTF-8.\<close>

definition em_dash :: string where
  "em_dash = [CHR 0xE2, CHR 0x80, CHR 0x94]"

text \<open>
  \<^verbatim>\<open>url.Values\<close> is a \<^verbatim>\<open>map[string][]string\<close>: an association list with one entry for
  each key. Maps are reference objects in Go, so the maps a function creates and the one
  its caller hands in live in a store, \<open>heap\<close>, and are named by their address there.
  The slices a map holds are values: the program never writes into one (\<^verbatim>\<open>Set\<close> puts
  a new slice, \<^verbatim>\<open>Get\<close> and \<^verbatim>\<open>vs[0]\<close> read). Reading through an address with no map,
  like ranging over a nil map, gives no entry.
\<close>

type_synonym Values = "(string \<times> string list) list"

definition Values_Get :: "Values \<Rightarrow> string \<Rightarrow> string" where
  "Values_Get v k = (case map_of v k of Some (x # _) \<Rightarrow> x | _ \<Rightarrow> [])"

definition Values_Set :: "Values \<Rightarrow> string \<Rightarrow> string \<Rightarrow> Values" where
  "Values_Set v k x = AList.update k [x] v"

definition Values_Add :: "Values \<Rightarrow> string \<Rightarrow> string \<Rightarrow> Values" where
  "Values_Add v k x =
     (case map_of v k of None \<Rightarrow> v @ [(k, [x])] | Some old \<Rightarrow> AList.update k (old @ [x]) v)"

text \<open>
  A request is the URL it is sent to: the part before the query, and the query
  parameters. The program builds the query with \<^verbatim>\<open>q.Encode()\<close>; the encoded string is
  not modelled, the parameters it encodes are.
\<close>

record request =
  Target :: string
  Query :: Values

record response =
  StatusCode :: int
  X_App_Usage :: payload
  Body :: "string + payload"

text \<open>
  What \<^verbatim>\<open>c.httpClient.Do\<close> returns: an error, or a response whose body may fail to be
  read (\<open>Inl\<close>).
\<close>

datatype outcome = DoFailed string | Responded response

text \<open>
  A parsed URL, as far as the program uses one: what \<^verbatim>\<open>u.String()\<close> prints of it
  before the query (scheme, host and path), and the raw query.
\<close>

record URL =
  Location :: string
  RawQuery :: string

text \<open>
  Packages net/url and net/http are modelled on the URLs of a plain form (below), where
  what they do is written out. On every other text their answers are taken as they come:
  \<open>Parse_rest\<close> is what \<^verbatim>\<open>url.Parse\<close> answers, \<open>NewRequest_rest\<close> the error of
  \<^verbatim>\<open>http.NewRequest\<close>, if any. The wording of an error of \<^verbatim>\<open>json.Unmarshal\<close> is taken
  as it comes too: \<open>Unmarshal_text\<close> gives it for a target and the bytes.
\<close>

record libraries =
  Parse_rest :: "string \<Rightarrow> error + URL"
  NewRequest_rest :: "request \<Rightarrow> error option"
  Unmarshal_text :: "string \<Rightarrow> payload \<Rightarrow> string"

text \<open>
  The world: the outcomes the network will give, one for each request to come
  (\<open>transport\<close>), the requests sent so far, the lines written to the diagnostic stream
  (one for each call of \<^verbatim>\<open>fmt.Fprintf(os.Stderr, ...)\<close>), and the store of maps. A
  function that sends a request returns \<open>None\<close> when \<open>transport\<close> is used up: the model then
  says nothing about what the program does. \<open>config_file\<close> is the local credential
  store and \<open>save_failure\<close> the error the file system would answer to a save, if any;
  \<open>libs\<close> holds the answers of the libraries. Writes to the primary output stream are
  not modelled.
\<close>

record Config =
  AccessToken :: string
  UserID :: string
  UserName :: string
  TokenExpiresAt :: int

record world =
  transport :: "outcome list"
  requests :: "request list"
  stderr :: "string list"
  heap :: "Values list"
  config_file :: "Config option"
  save_failure :: "string option"
  libs :: libraries

definition deref :: "world \<Rightarrow> nat \<Rightarrow> Values" where
  "deref w a = (if a < length (heap w) then heap w ! a else [])"

text \<open>\<^verbatim>\<open>url.Values{}\<close>: a new, empty map.\<close>

definition new_Values :: "world \<Rightarrow> nat \<times> world" where
  "new_Values w = (length (heap w), w\<lparr>heap := heap w @ [[]]\<rparr>)"

definition store :: "nat \<Rightarrow> Values \<Rightarrow> world \<Rightarrow> world" where
  "store a v w = w\<lparr>heap := (heap w)[a := v]\<rparr>"

section \<open>Package net/url, as far as the program uses it\<close>

text \<open>\<^verbatim>\<open>strings.Cut\<close>: the text before and after the first separator.\<close>

definition Cut :: "char \<Rightarrow> string \<Rightarrow> string \<times> string" where
  "Cut sep s = (takeWhile (\<lambda>c. c \<noteq> sep) s, drop 1 (dropWhile (\<lambda>c. c \<noteq> sep) s))"

fun Split :: "char \<Rightarrow> string \<Rightarrow> string \<Rightarrow> string list" where
  "Split sep cur [] = [cur]"
| "Split sep cur (c # cs) = (if c = sep then cur # Split sep [] cs else Split sep (cur @ [c]) cs)"

definition HasPrefix :: "string \<Rightarrow> string \<Rightarrow> bool" where
  "HasPrefix s pre = (take (length pre) s = pre)"

text \<open>
  The plain form of a URL: \<^verbatim>\<open>http://\<close> or \<^verbatim>\<open>https://\<close>, a host of letters, digits,
  hyphens and dots, possibly a colon and a port of digits, a path that is empty or starts
  with a slash and is made of letters, digits, slashes and the marks \<^verbatim>\<open>-._~\<close>, and
  possibly a question mark and a query. The query holds any byte but a control character
  and the number sign; there is no fragment. \<open>plain_target\<close> is the part before the query.
\<close>

definition is_ctl :: "char \<Rightarrow> bool" where
  "is_ctl c = ((of_char c :: nat) < 32 \<or> (of_char c :: nat) = 127)"

definition is_digit :: "char \<Rightarrow> bool" where
  "is_digit c = (48 \<le> (of_char c :: nat) \<and> (of_char c :: nat) \<le> 57)"

definition is_letter :: "char \<Rightarrow> bool" where
  "is_letter c = ((65 \<le> (of_char c :: nat) \<and> (of_char c :: nat) \<le> 90) \<or>
                  (97 \<le> (of_char c :: nat) \<and> (of_char c :: nat) \<le> 122))"

definition host_char :: "char \<Rightarrow> bool" where
  "host_char c = (is_letter c \<or> is_digit c \<or> c = CHR ''-'' \<or> c = CHR ''.'')"

definition path_char :: "char \<Rightarrow> bool" where
  "path_char c = (is_letter c \<or> is_digit c \<or> c = CHR ''/'' \<or> c = CHR ''-'' \<or> c = CHR ''.'' \<or>
                  c = CHR ''_'' \<or> c = CHR ''~'')"

definition after_scheme :: "string \<Rightarrow> string option" where
  "after_scheme s =
     (if HasPrefix s ''https://'' then Some (drop 8 s)
      else if HasPrefix s ''http://'' then Some (drop 7 s)
      else None)"

definition plain_authority :: "string \<Rightarrow> bool" where
  "plain_authority a =
     (fst (Cut (CHR '':'') a) \<noteq> [] \<and> list_all host_char (fst (Cut (CHR '':'') a)) \<and>
      (if CHR '':'' \<in> set a
       then snd (Cut (CHR '':'') a) \<noteq> [] \<and> list_all is_digit (snd (Cut (CHR '':'') a))
       else True))"

definition plain_target :: "string \<Rightarrow> bool" where
  "plain_target t =
     (case after_scheme t of
        None \<Rightarrow> False
      | Some r \<Rightarrow>
          plain_authority (takeWhile (\<lambda>c. c \<noteq> CHR ''/'') r) \<and>
          list_all path_char (dropWhile (\<lambda>c. c \<noteq> CHR ''/'') r))"

definition plain_URL :: "string \<Rightarrow> bool" where
  "plain_URL s =
     (plain_target (fst (Cut (CHR ''?'') s)) \<and> \<not> list_ex is_ctl s \<and> CHR ''#'' \<notin> set s)"

text \<open>
  \<^verbatim>\<open>url.Parse\<close> splits a plain URL at the first question mark, and prints scheme, host
  and path as they came: nothing in them needs an escape. \<^verbatim>\<open>u.Query()\<close> is
  \<^verbatim>\<open>url.ParseQuery\<close> with its error dropped: a pair with a semicolon or a bad escape is
  left out (the library has refused the semicolon since Go 1.17). \<^verbatim>\<open>http.NewRequest\<close> parses the URL once more and accepts a plain one; the
  query that \<^verbatim>\<open>q.Encode()\<close> wrote is well-formed whatever the parameters are.
\<close>

definition url_Parse :: "libraries \<Rightarrow> string \<Rightarrow> error + URL" where
  "url_Parse lib rawURL =
     (if plain_URL rawURL
      then Inr \<lparr>Location = fst (Cut (CHR ''?'') rawURL), RawQuery = snd (Cut (CHR ''?'') rawURL)\<rparr>
      else Parse_rest lib rawURL)"

definition NewRequest :: "libraries \<Rightarrow> request \<Rightarrow> error option" where
  "NewRequest lib req = (if plain_target (Target req) then None else NewRequest_rest lib req)"

definition hex_val :: "char \<Rightarrow> nat option" where
  "hex_val c =
     (let n = (of_char c :: nat) in
      if 48 \<le> n \<and> n \<le> 57 then Some (n - 48)
      else if 97 \<le> n \<and> n \<le> 102 then Some (n - 87)
      else if 65 \<le> n \<and> n \<le> 70 then Some (n - 55)
      else None)"

fun QueryUnescape :: "string \<Rightarrow> string option" where
  "QueryUnescape [] = Some []"
| "QueryUnescape (c # cs) =
     (if c = CHR ''%'' then
        (case cs of
           h # l # rest \<Rightarrow>
             (case (hex_val h, hex_val l) of
                (Some a, Some b) \<Rightarrow> map_option ((#) (char_of (16 * a + b))) (QueryUnescape rest)
              | _ \<Rightarrow> None)
         | _ \<Rightarrow> None)
      else map_option ((#) (if c = CHR ''+'' then CHR '' '' else c)) (QueryUnescape cs))"

definition add_pair :: "string \<Rightarrow> Values \<Rightarrow> Values" where
  "add_pair kv m =
     (if kv = [] \<or> CHR '';'' \<in> set kv then m
      else case (QueryUnescape (fst (Cut (CHR ''='') kv)), QueryUnescape (snd (Cut (CHR ''='') kv))) of
             (Some k, Some v) \<Rightarrow> Values_Add m k v
           | _ \<Rightarrow> m)"

definition ParseQuery :: "string \<Rightarrow> Values" where
  "ParseQuery q = fold add_pair (Split (CHR ''&'') [] q) []"

section \<open>Package api: the client\<close>

definition baseURL :: string where
  "baseURL = ''https://graph.facebook.com/v23.0''"

definition adLibPath :: string where
  "adLibPath = ''/ads_archive''"

record Client =
  token :: string

definition baseParams :: "Client \<Rightarrow> Values" where
  "baseParams c = Values_Set [] ''access_token'' (token c)"

definition rate_warning :: "int \<Rightarrow> string" where
  "rate_warning pct =
     ''warning: rate limit '' @ fmt_d pct @ ''% used '' @ em_dash @
     '' slow down to avoid HTTP 613'' @ [CHR 0x0A]"

definition checkRateLimit :: "payload \<Rightarrow> world \<Rightarrow> world" where
  "checkRateLimit usage w =
     (if raw usage = [] then w
      else case unmarshal_usage usage of
             None \<Rightarrow> w
           | Some parsed \<Rightarrow>
               (let pct = CallCount parsed;
                    pct = (if TotalTime parsed > pct then TotalTime parsed else pct)
                in if pct > 75 then w\<lparr>stderr := stderr w @ [rate_warning pct]\<rparr> else w))"

text \<open>\<^verbatim>\<open>c.httpClient.Do(req)\<close>: the request goes out, the next outcome comes back.\<close>

definition Do :: "request \<Rightarrow> world \<Rightarrow> (outcome \<times> world) option" where
  "Do req w =
     (case transport w of
        [] \<Rightarrow> None
      | out # rest \<Rightarrow> Some (out, w\<lparr>transport := rest, requests := requests w @ [req]\<rparr>))"

definition doRequest :: "request \<Rightarrow> world \<Rightarrow> ((error + payload) \<times> world) option" where
  "doRequest req w =
     (case Do req w of
        None \<Rightarrow> None
      | Some (DoFailed err, w) \<Rightarrow> Some (Inl (Wrap ''request failed: '' (Lib err)), w)
      | Some (Responded resp, w) \<Rightarrow>
          (let w = checkRateLimit (X_App_Usage resp) w in
           case Body resp of
             Inl err \<Rightarrow> Some (Inl (Wrap ''reading response: '' (Lib err)), w)
           | Inr body \<Rightarrow>
               (case unmarshal_errResp body of
                  Some (Some e) \<Rightarrow> Some (Inl (ApiError e), w)
                | _ \<Rightarrow>
                    if StatusCode resp \<ge> 400
                    then Some (Inl (Errorf (''HTTP '' @ fmt_d (StatusCode resp) @ '': '' @ raw body)), w)
                    else Some (Inr body, w))))"

text \<open>
  \<^verbatim>\<open>for k, vs := range m { q.Set(k, vs[0]) }\<close>: indexing an empty slice panics. A map has
  one entry for each key, so the order of the iteration does not matter.
\<close>

fun set_all :: "Values \<Rightarrow> Values \<Rightarrow> error + Values" where
  "set_all [] q = Inr q"
| "set_all ((k, vs) # m) q =
     (case vs of
        [] \<Rightarrow> Inl (Panic ''index out of range [0] with length 0'')
      | v # _ \<Rightarrow> set_all m (Values_Set q k v))"

definition buildURL :: "libraries \<Rightarrow> string \<Rightarrow> Values \<Rightarrow> Values \<Rightarrow> error + request" where
  "buildURL lib path base extra =
     (case (if HasPrefix path ''http'' then url_Parse lib path else url_Parse lib (baseURL @ path)) of
        Inl err \<Rightarrow> Inl err
      | Inr u \<Rightarrow>
          (case set_all base (ParseQuery (RawQuery u)) of
             Inl err \<Rightarrow> Inl err
           | Inr q \<Rightarrow>
               (case set_all extra q of
                  Inl err \<Rightarrow> Inl err
                | Inr q \<Rightarrow> Inr \<lparr>Target = Location u, Query = q\<rparr>)))"

text \<open>The \<^verbatim>\<open>Accept\<close> header that \<open>Get\<close> sets plays no part in what follows.\<close>

definition Get :: "Client \<Rightarrow> string \<Rightarrow> Values \<Rightarrow> world \<Rightarrow> ((error + payload) \<times> world) option" where
  "Get c path params w =
     (case buildURL (libs w) path (baseParams c) params of
        Inl err \<Rightarrow> Some (Inl err, w)
      | Inr reqURL \<Rightarrow>
          (case NewRequest (libs w) reqURL of
             Some err \<Rightarrow> Some (Inl err, w)
           | None \<Rightarrow> doRequest reqURL w))"

lemma Do_transport:
  "Do req w = Some (out, w') \<Longrightarrow> length (transport w') < length (transport w)"
  by (auto simp: Do_def split: list.splits)

lemma checkRateLimit_transport [simp]: "transport (checkRateLimit u w) = transport w"
  by (simp add: checkRateLimit_def Let_def split: option.splits)

lemma doRequest_transport:
  "doRequest req w = Some (r, w') \<Longrightarrow> length (transport w') < length (transport w)"
  by (auto simp: doRequest_def Let_def dest!: Do_transport
      split: option.splits outcome.splits sum.splits if_splits)

lemma Get_Inr_transport:
  "Get c path params w = Some (Inr body, w') \<Longrightarrow> length (transport w') < length (transport w)"
  by (auto simp: Get_def dest: doRequest_transport split: sum.splits option.splits)

lemma new_Values_transport [simp]: "transport (snd (new_Values w)) = transport w"
  by (simp add: new_Values_def)

text \<open>
  The loop of \<open>SearchAds\<close>. \<open>p\<close> is the address of the working parameters, \<open>all\<close> the
  accumulator. Each turn consumes one outcome of the network, so the model of the loop
  ends: on a result, or with \<open>None\<close> when the outcomes are used up.
\<close>

function SearchAds_loop ::
  "Client \<Rightarrow> int \<Rightarrow> string \<Rightarrow> nat \<Rightarrow> json list \<Rightarrow> world \<Rightarrow> ((error + json list) \<times> world) option"
where
  "SearchAds_loop c limit currentPath p all w =
     (case Get c currentPath (deref w p) w of
        None \<Rightarrow> None
      | Some (Inl err, w) \<Rightarrow> Some (Inl err, w)
      | Some (Inr body, w) \<Rightarrow>
          (case unmarshal_page body of
             None \<Rightarrow> Some (Inl (Wrap ''parsing page: '' (Json ''page'' body)), w)
           | Some page \<Rightarrow>
               (let all = all @ Data page in
                if limit > 0 \<and> int (length all) \<ge> limit then Some (Inr (take (nat limit) all), w)
                else
                  (case Paging page of
                     None \<Rightarrow> Some (Inr all, w)
                   | Some paging \<Rightarrow>
                       if Next paging = [] then Some (Inr all, w)
                       else SearchAds_loop c limit (Next paging) (fst (new_Values w)) all
                              (snd (new_Values w))))))"
  by pat_completeness auto
termination
  by (relation "measure (\<lambda>(c, limit, currentPath, p, all, w). length (transport w))")
     (auto dest: Get_Inr_transport)

declare SearchAds_loop.simps [simp del]

definition clone_into :: "nat \<Rightarrow> Values \<Rightarrow> world \<Rightarrow> world" where
  "clone_into p entries w = fold (\<lambda>(k, v) w. store p (AList.update k v (deref w p)) w) entries w"

definition SearchAds :: "Client \<Rightarrow> nat \<Rightarrow> int \<Rightarrow> world \<Rightarrow> ((error + json list) \<times> world) option" where
  "SearchAds c params limit w =
     (let p = fst (new_Values w);
          w = snd (new_Values w);
          w = clone_into p (deref w params) w;
          w = (if Values_Get (deref w p) ''limit'' = [] then store p (Values_Set (deref w p) ''limit'' ''100'') w
               else w)
      in SearchAds_loop c limit adLibPath p [] w)"

section \<open>Package cmd: the search command\<close>

text \<open>
  \<^verbatim>\<open>strconv.Quote\<close>, byte by byte: the quote and the backslash are escaped, printable
  ASCII is kept, the control characters get Go's escapes. A byte from 0x80 on is kept as
  it is, which is what the library does for the UTF-8 encoding of a printable rune; the
  escapes it writes for the other runes from U+0080 on, and for bytes that are not UTF-8,
  are not modelled.
\<close>

definition hex_digit :: "nat \<Rightarrow> char" where
  "hex_digit n = ''0123456789abcdef'' ! (n mod 16)"

definition quote_byte :: "char \<Rightarrow> string" where
  "quote_byte c =
     (let n = (of_char c :: nat) in
      if n = 0x22 then [CHR 0x5C, CHR 0x22]
      else if n = 0x5C then [CHR 0x5C, CHR 0x5C]
      else if 0x20 \<le> n \<and> n < 0x7F then [c]
      else if n = 7 then [CHR 0x5C, CHR ''a'']
      else if n = 8 then [CHR 0x5C, CHR ''b'']
      else if n = 12 then [CHR 0x5C, CHR ''f'']
      else if n = 10 then [CHR 0x5C, CHR ''n'']
      else if n = 13 then [CHR 0x5C, CHR ''r'']
      else if n = 9 then [CHR 0x5C, CHR ''t'']
      else if n = 11 then [CHR 0x5C, CHR ''v'']
      else if n < 0x20 \<or> n = 0x7F then [CHR 0x5C, CHR ''x'', hex_digit (n div 16), hex_digit n]
      else [c])"

definition Quote :: "string \<Rightarrow> string" where
  "Quote s = [CHR 0x22] @ concat (map quote_byte s) @ [CHR 0x22]"

fun Join :: "string list \<Rightarrow> string \<Rightarrow> string" where
  "Join [] sep = []"
| "Join [x] sep = x"
| "Join (x # y # ys) sep = x @ sep @ Join (y # ys) sep"

definition toJSONArray :: "string list \<Rightarrow> string" where
  "toJSONArray ss = ''['' @ Join (map Quote ss) '','' @ '']''"

record search_flags =
  searchQuery :: string
  searchCountries :: "string list"
  searchPageIDs :: "string list"
  searchAdType :: string
  searchStatus :: string
  searchDateMin :: string
  searchDateMax :: string
  searchPlatforms :: "string list"
  searchLanguages :: "string list"
  searchLimit :: int
  searchFields :: string
  searchMediaType :: string

text \<open>\<^verbatim>\<open>params.Set(k, v)\<close> on the map at address \<open>a\<close>.\<close>

definition Set_at :: "nat \<Rightarrow> string \<Rightarrow> string \<Rightarrow> world \<Rightarrow> world" where
  "Set_at a k v w = store a (Values_Set (deref w a) k v) w"

text \<open>
  \<open>runSearch\<close>, up to the call of \<open>SearchAds\<close>: the result is the records or the error.
  Rendering the records (the presentation layer) is not modelled.
\<close>

definition search_params :: "search_flags \<Rightarrow> nat \<Rightarrow> world \<Rightarrow> world" where
  "search_params f a w =
     (let w = Set_at a ''fields'' (searchFields f) w;
          w = Set_at a ''ad_type'' (searchAdType f) w;
          w = Set_at a ''ad_active_status'' (searchStatus f) w;
          w = Set_at a ''ad_reached_countries'' (toJSONArray (searchCountries f)) w;
          w = (if searchQuery f \<noteq> [] then Set_at a ''search_terms'' (searchQuery f) w else w);
          w = (if length (searchPageIDs f) > 0
               then Set_at a ''search_page_ids'' (toJSONArray (searchPageIDs f)) w else w);
          w = (if searchDateMin f \<noteq> [] then Set_at a ''ad_delivery_date_min'' (searchDateMin f) w else w);
          w = (if searchDateMax f \<noteq> [] then Set_at a ''ad_delivery_date_max'' (searchDateMax f) w else w);
          w = (if length (searchPlatforms f) > 0
               then Set_at a ''publisher_platforms'' (toJSONArray (searchPlatforms f)) w else w);
          w = (if length (searchLanguages f) > 0
               then Set_at a ''languages'' (toJSONArray (searchLanguages f)) w else w);
          w = (if searchMediaType f \<noteq> [] then Set_at a ''ad_creative_media_type'' (searchMediaType f) w
               else w)
      in w)"

definition runSearch :: "Client \<Rightarrow> search_flags \<Rightarrow> world \<Rightarrow> ((error + json list) \<times> world) option" where
  "runSearch client f w =
     (if length (searchCountries f) = 0
      then Some (Inl (Errorf ''at least one --country is required (e.g. --country US)''), w)
      else if searchQuery f = [] \<and> length (searchPageIDs f) = 0
      then Some (Inl (Errorf ''at least one of --query or --page-id is required''), w)
      else
        (let params = fst (new_Values w);
             w = snd (new_Values w);
             w = search_params f params w
         in SearchAds client params (searchLimit f) w))"

section \<open>Package time, as far as the program uses it\<close>

text \<open>
  The arithmetic of the 64-bit integers wraps around: \<open>int64 n\<close> is the value that the
  bits of \<open>n\<close> stand for.
\<close>

definition int64 :: "int \<Rightarrow> int" where
  "int64 n = (n + 9223372036854775808) mod 18446744073709551616 - 9223372036854775808"

definition second :: int where
  "second = 1000000000"

text \<open>
  A \<^verbatim>\<open>time.Time\<close> without a monotonic reading: the seconds since January 1 of year 1, a
  64-bit integer, and the nanoseconds within the second. \<^verbatim>\<open>time.Unix\<close> adds the seconds
  between year 1 and 1970 to its argument in 64 bits, so an argument near the greatest
  64-bit integer wraps around to a time in the far past. The clock is in nanoseconds since
  1970; \<open>time_Now\<close> is what \<^verbatim>\<open>time.Now()\<close> returns when the clock reads \<open>now\<close>.
  \<^verbatim>\<open>t.Sub(u)\<close> is the difference in nanoseconds, or the least or greatest
  \<^verbatim>\<open>Duration\<close> when the difference does not fit in 64 bits.
\<close>

record Time =
  seconds :: int
  nanos :: int

definition unixToInternal :: int where
  "unixToInternal = 62135596800"

definition time_Unix :: "int \<Rightarrow> Time" where
  "time_Unix sec = \<lparr>seconds = int64 (sec + unixToInternal), nanos = 0\<rparr>"

definition time_Now :: "int \<Rightarrow> Time" where
  "time_Now now = \<lparr>seconds = int64 (now div second + unixToInternal), nanos = now mod second\<rparr>"

definition Time_After :: "Time \<Rightarrow> Time \<Rightarrow> bool" where
  "Time_After t u = (seconds t > seconds u \<or> (seconds t = seconds u \<and> nanos t > nanos u))"

definition maxDuration :: int where
  "maxDuration = 9223372036854775807"

definition minDuration :: int where
  "minDuration = - 9223372036854775808"

definition Time_Sub :: "Time \<Rightarrow> Time \<Rightarrow> int" where
  "Time_Sub t u =
     (let d = (seconds t - seconds u) * second + (nanos t - nanos u) in
      if d < minDuration then minDuration else if d > maxDuration then maxDuration else d)"

definition time_Until :: "Time \<Rightarrow> int \<Rightarrow> int" where
  "time_Until t now = Time_Sub t (time_Now now)"

section \<open>Package metaauth: the shared credential store\<close>

text \<open>
  What reading the shared file gives: no configuration directory, no such file, another
  read error, or the bytes of the file. \<open>Token\<close>, \<open>IsExpired\<close> and \<open>DaysUntilExpiry\<close> each
  read the file; the three reads of one resolution are taken to see the same file. With
  no configuration directory \<open>IsExpired\<close> and \<open>DaysUntilExpiry\<close> look for the file under the
  working directory; \<open>resolveToken\<close> does not call them then, and they answer here as for
  a file that is not found.
  \<^verbatim>\<open>int(d.Hours() / 24)\<close> is the whole number of days in \<open>d\<close>. The library divides in
  floating point; the rounding is not modelled. It leaves the whole number of days as it
  is when \<open>d\<close> is less than 4096 hours, so for every number of days up to seven, the ones
  the program looks at and prints.
\<close>

datatype config_read = NoConfigDir string | NotExist | ReadError string | Contents payload

record sharedConfig =
  shared_AccessToken :: string
  shared_UserName :: string
  shared_TokenExpiresAt :: int

definition sharedConfig_field :: "string \<Rightarrow> json \<Rightarrow> sharedConfig \<Rightarrow> sharedConfig option" where
  "sharedConfig_field name v c =
     (if name = ''access_token''
      then map_option (\<lambda>s. c\<lparr>shared_AccessToken := s\<rparr>) (store_string v (shared_AccessToken c))
      else if name = ''user_name''
      then map_option (\<lambda>s. c\<lparr>shared_UserName := s\<rparr>) (store_string v (shared_UserName c))
      else if name = ''token_expires_at''
      then map_option (\<lambda>n. c\<lparr>shared_TokenExpiresAt := n\<rparr>) (store_int v (shared_TokenExpiresAt c))
      else Some c)"

definition unmarshal_sharedConfig :: "payload \<Rightarrow> sharedConfig option" where
  "unmarshal_sharedConfig b =
     do {
       j \<leftarrow> doc b;
       ms \<leftarrow> members j;
       decode_members sharedConfig_field ms
         \<lparr>shared_AccessToken = [], shared_UserName = [], shared_TokenExpiresAt = 0\<rparr>
     }"

definition metaauth_Token :: "config_read \<Rightarrow> error + string" where
  "metaauth_Token f =
     (case f of
        NoConfigDir err \<Rightarrow> Inl (Lib err)
      | NotExist \<Rightarrow> Inr []
      | ReadError err \<Rightarrow> Inl (Lib err)
      | Contents data \<Rightarrow>
          (case unmarshal_sharedConfig data of
             None \<Rightarrow> Inl (Json ''sharedConfig'' data)
           | Some cfg \<Rightarrow> Inr (shared_AccessToken cfg)))"

definition metaauth_IsExpired :: "config_read \<Rightarrow> int \<Rightarrow> bool" where
  "metaauth_IsExpired f now =
     (case f of
        Contents data \<Rightarrow>
          (case unmarshal_sharedConfig data of
             None \<Rightarrow> False
           | Some cfg \<Rightarrow>
               if shared_TokenExpiresAt cfg = 0 then False
               else Time_After (time_Now now) (time_Unix (shared_TokenExpiresAt cfg)))
      | _ \<Rightarrow> False)"

definition metaauth_DaysUntilExpiry :: "config_read \<Rightarrow> int \<Rightarrow> int" where
  "metaauth_DaysUntilExpiry f now =
     (case f of
        Contents data \<Rightarrow>
          (case unmarshal_sharedConfig data of
             None \<Rightarrow> - 1
           | Some cfg \<Rightarrow>
               if shared_TokenExpiresAt cfg = 0 then - 1
               else
                 (let d = time_Until (time_Unix (shared_TokenExpiresAt cfg)) now
                  in if d < 0 then 0 else d div (24 * 3600 * second)))
      | _ \<Rightarrow> - 1)"

section \<open>Package cmd: resolving the token\<close>

text \<open>
  Package config is not among the sources. \<open>resolveToken\<close> uses three things of it, which
  are taken as they come: what \<^verbatim>\<open>config.Load()\<close> returns (\<open>own_config\<close>), and what the
  methods \<^verbatim>\<open>IsExpired\<close> and \<^verbatim>\<open>DaysUntilExpiry\<close> answer for a configuration.
\<close>

record environment =
  META_TOKEN :: string
  META_APP_ID :: string
  META_APP_SECRET :: string
  own_config :: "error + Config"
  IsExpired :: "Config \<Rightarrow> bool"
  DaysUntilExpiry :: "Config \<Rightarrow> int"
  shared_file :: config_read
  now_ns :: int

definition warnOwnExpiry :: "environment \<Rightarrow> Config option \<Rightarrow> world \<Rightarrow> world" where
  "warnOwnExpiry env cfg w =
     (case cfg of
        None \<Rightarrow> w
      | Some cfg \<Rightarrow>
          (let days = DaysUntilExpiry env cfg in
           if IsExpired env cfg
           then w\<lparr>stderr := stderr w @
                  [''warning: token has expired '' @ em_dash @ '' run: meta-adlib auth refresh'' @ [CHR 0x0A]]\<rparr>
           else if days \<ge> 0 \<and> days \<le> 7
           then w\<lparr>stderr := stderr w @
                  [''warning: token expires in '' @ fmt_d days @ '' day(s) '' @ em_dash @
                   '' run: meta-adlib auth refresh'' @ [CHR 0x0A]]\<rparr>
           else w))"

definition warnSharedExpiry :: "environment \<Rightarrow> world \<Rightarrow> world" where
  "warnSharedExpiry env w =
     (let days = metaauth_DaysUntilExpiry (shared_file env) (now_ns env) in
      if metaauth_IsExpired (shared_file env) (now_ns env)
      then w\<lparr>stderr := stderr w @
             [''warning: meta-auth token has expired '' @ em_dash @ '' run: meta-auth refresh'' @ [CHR 0x0A]]\<rparr>
      else if days \<ge> 0 \<and> days \<le> 7
      then w\<lparr>stderr := stderr w @
             [''warning: meta-auth token expires in '' @ fmt_d days @ '' day(s) '' @ em_dash @
              '' run: meta-auth refresh'' @ [CHR 0x0A]]\<rparr>
      else w)"

definition not_authenticated :: string where
  "not_authenticated =
     ''not authenticated '' @ em_dash @ '' run: meta-auth login  (shared)'' @ [CHR 0x0A] @
     ''or: meta-adlib auth set-token <token>  (local only)''"

definition resolveToken :: "environment \<Rightarrow> world \<Rightarrow> (error + string) \<times> world" where
  "resolveToken env w =
     (if META_TOKEN env \<noteq> [] then (Inr (META_TOKEN env), w)
      else
        (case own_config env of
           Inl err \<Rightarrow> (Inl (Wrap ''failed to load config: '' err), w)
         | Inr cfg \<Rightarrow>
             if AccessToken cfg \<noteq> [] then (Inr (AccessToken cfg), warnOwnExpiry env (Some cfg) w)
             else
               (case metaauth_Token (shared_file env) of
                  Inl err \<Rightarrow> (Inl (Wrap ''failed to read meta-auth config: '' err), w)
                | Inr sharedToken \<Rightarrow>
                    if sharedToken \<noteq> [] then (Inr sharedToken, warnSharedExpiry env w)
                    else (Inl (Errorf not_authenticated), w))))"

section \<open>Package cmd: saving a token\<close>








record tokenResponse =
  tr_AccessToken :: string
  tr_ExpiresIn :: int
  tr_Error :: "string option"

text \<open>\<^verbatim>\<open>Error *struct { Message string `json:"message"` }\<close>: the pointer, as its message.\<close>

definition message_field :: "string \<Rightarrow> json \<Rightarrow> string \<Rightarrow> string option" where
  "message_field name v m = (if name = ''message'' then store_string v m else Some m)"

definition tokenResponse_field :: "string \<Rightarrow> json \<Rightarrow> tokenResponse \<Rightarrow> tokenResponse option" where
  "tokenResponse_field name v r =
     (if name = ''access_token''
      then map_option (\<lambda>s. r\<lparr>tr_AccessToken := s\<rparr>) (store_string v (tr_AccessToken r))
      else if name = ''expires_in''
      then map_option (\<lambda>n. r\<lparr>tr_ExpiresIn := n\<rparr>) (store_int v (tr_ExpiresIn r))
      else if name = ''error''
      then map_option (\<lambda>e. r\<lparr>tr_Error := e\<rparr>)
             (store_ptr (decode_members message_field) [] v (tr_Error r))
      else Some r)"

definition unmarshal_tokenResponse :: "payload \<Rightarrow> tokenResponse option" where
  "unmarshal_tokenResponse b =
     do {
       j \<leftarrow> doc b;
       ms \<leftarrow> members j;
       decode_members tokenResponse_field ms \<lparr>tr_AccessToken = [], tr_ExpiresIn = 0, tr_Error = None\<rparr>
     }"

text \<open>
  \<^verbatim>\<open>http.Get\<close> of the default client: no usage check, no look at the status. The URL is
  a constant of the program followed by an encoded query, which the library accepts. The
  sum \<^verbatim>\<open>time.Now().Unix() + result.ExpiresIn\<close> is taken in 64 bits and wraps around.
\<close>

definition metaTokenFetch :: "environment \<Rightarrow> request \<Rightarrow> world \<Rightarrow> ((error + string \<times> int) \<times> world) option" where
  "metaTokenFetch env reqURL w =
     (case Do reqURL w of
        None \<Rightarrow> None
      | Some (DoFailed err, w) \<Rightarrow> Some (Inl (Lib err), w)
      | Some (Responded resp, w) \<Rightarrow>
          (case Body resp of
             Inl err \<Rightarrow> Some (Inl (Lib err), w)
           | Inr body \<Rightarrow>
               (case unmarshal_tokenResponse body of
                  None \<Rightarrow> Some (Inl (Wrap ''parsing token response: '' (Json ''tokenResponse'' body)), w)
                | Some result \<Rightarrow>
                    (case tr_Error result of
                       Some m \<Rightarrow> Some (Inl (Errorf (''meta api error: '' @ m)), w)
                     | None \<Rightarrow>
                         if tr_AccessToken result = []
                         then Some (Inl (Errorf (''no access_token in response: '' @ raw body)), w)
                         else Some (Inr (tr_AccessToken result,
                                 if tr_ExpiresIn result > 0
                                 then int64 (now_ns env div second + tr_ExpiresIn result)
                                 else 0), w)))))"









section \<open>Notions used to state the properties\<close>

subsection \<open>Responses and pages\<close>

text \<open>The world once a request has gone out, and once its response has been looked at.\<close>

definition sent :: "request \<Rightarrow> world \<Rightarrow> world" where
  "sent req w = w\<lparr>transport := tl (transport w), requests := requests w @ [req]\<rparr>"

definition answered :: "request \<Rightarrow> response \<Rightarrow> world \<Rightarrow> world" where
  "answered req resp w = checkRateLimit (X_App_Usage resp) (sent req w)"

text \<open>The error payload of a body: the error object that decodes as the error envelope.\<close>

definition error_payload :: "payload \<Rightarrow> MetaError option" where
  "error_payload b = (case unmarshal_errResp b of Some (Some e) \<Rightarrow> Some e | _ \<Rightarrow> None)"

text \<open>
  The page a response carries, if it is a well-formed page: its body is read, holds no
  error payload, comes with a status below 400 and decodes as a page envelope.
\<close>

definition page_of :: "response \<Rightarrow> page option" where
  "page_of resp =
     (case Body resp of
        Inl _ \<Rightarrow> None
      | Inr body \<Rightarrow>
          (case error_payload body of
             Some e \<Rightarrow> None
           | None \<Rightarrow> if StatusCode resp \<ge> 400 then None else unmarshal_page body))"

text \<open>
  A page request fails when there is no response, or a response that is not a well-formed
  page. \<open>failure_of\<close> is the error of a failed request, \<open>None\<close> for a well-formed page.
\<close>

definition failure_of :: "outcome \<Rightarrow> error option" where
  "failure_of out =
     (case out of
        DoFailed err \<Rightarrow> Some (Wrap ''request failed: '' (Lib err))
      | Responded resp \<Rightarrow>
          (case Body resp of
             Inl err \<Rightarrow> Some (Wrap ''reading response: '' (Lib err))
           | Inr body \<Rightarrow>
               (case error_payload body of
                  Some e \<Rightarrow> Some (ApiError e)
                | None \<Rightarrow>
                    if StatusCode resp \<ge> 400
                    then Some (Errorf (''HTTP '' @ fmt_d (StatusCode resp) @ '': '' @ raw body))
                    else (case unmarshal_page body of
                            None \<Rightarrow> Some (Wrap ''parsing page: '' (Json ''page'' body))
                          | Some pg \<Rightarrow> None))))"

definition next_locator :: "page \<Rightarrow> string" where
  "next_locator pg = (case Paging pg of None \<Rightarrow> [] | Some paging \<Rightarrow> Next paging)"

text \<open>
  The two conditions on which the pagination stops, after \<open>j\<close> pages (counted from 1)
  with \<open>n\<close> records accumulated before the first of them.
\<close>

definition limit_reached :: "int \<Rightarrow> nat \<Rightarrow> page list \<Rightarrow> nat \<Rightarrow> bool" where
  "limit_reached limit n pgs j =
     (limit > 0 \<and> int (n + length (concat (map Data (take j pgs)))) \<ge> limit)"

definition cursor_exhausted :: "page list \<Rightarrow> nat \<Rightarrow> bool" where
  "cursor_exhausted pgs j = (next_locator (pgs ! (j - 1)) = [])"

definition stops :: "int \<Rightarrow> nat \<Rightarrow> page list \<Rightarrow> nat \<Rightarrow> bool" where
  "stops limit n pgs j = (limit_reached limit n pgs j \<or> cursor_exhausted pgs j)"

definition cutoff :: "int \<Rightarrow> 'a list \<Rightarrow> 'a list" where
  "cutoff limit xs = (if limit > 0 then take (nat limit) xs else xs)"

text \<open>The parameters \<open>SearchAds\<close> works with at its first request.\<close>

definition working_params :: "Values \<Rightarrow> Values" where
  "working_params entries =
     (let m = fold (\<lambda>(k, v). AList.update k v) entries []
      in if Values_Get m ''limit'' = [] then Values_Set m ''limit'' ''100'' else m)"

definition no_empty_slice :: "Values \<Rightarrow> bool" where
  "no_empty_slice m = list_all (\<lambda>(k, vs). vs \<noteq> []) m"

text \<open>
  The request that \<open>Get\<close> makes of a path and parameters, or the error that ends the call
  before anything is sent.
\<close>

definition request_of :: "libraries \<Rightarrow> Client \<Rightarrow> string \<Rightarrow> Values \<Rightarrow> error + request" where
  "request_of lib c path params =
     (case buildURL lib path (baseParams c) params of
        Inl err \<Rightarrow> Inl err
      | Inr req \<Rightarrow> (case NewRequest lib req of Some err \<Rightarrow> Inl err | None \<Rightarrow> Inr req))"

subsection \<open>The parameters of a locator\<close>

text \<open>
  What a locator says, read as the URL standard reads a query: the text before the first
  question mark is the target; the query is cut at every ampersand, each piece that is not
  empty is a pair, cut at its first equals sign into a name and a value, and in both a
  plus sign stands for a space and a percent sign with two hexadecimal digits for a byte
  (a percent sign with anything else stands for itself). \<open>parameters\<close> gives for each
  name its values, in the order of the text.
\<close>

definition locator_target :: "string \<Rightarrow> string" where
  "locator_target l = fst (Cut (CHR ''?'') l)"

definition locator_query :: "string \<Rightarrow> string" where
  "locator_query l = snd (Cut (CHR ''?'') l)"


fun percent_decode :: "string \<Rightarrow> string" where
  "percent_decode [] = []"
| "percent_decode (c # cs) =
     (if c = CHR ''+'' then CHR '' '' # percent_decode cs
      else if c = CHR ''%'' then
        (case cs of
           h # l # rest \<Rightarrow>
             (case (hex_val h, hex_val l) of
                (Some a, Some b) \<Rightarrow> char_of (16 * a + b) # percent_decode rest
              | _ \<Rightarrow> c # percent_decode cs)
         | _ \<Rightarrow> c # percent_decode cs)
      else c # percent_decode cs)"

definition reading :: "string \<Rightarrow> string \<times> string" where
  "reading p = (percent_decode (fst (Cut (CHR ''='') p)), percent_decode (snd (Cut (CHR ''='') p)))"





subsection \<open>The members of an object\<close>

text \<open>The members of an object that go to the field of a name.\<close>

definition named :: "string \<Rightarrow> (string \<times> json) list \<Rightarrow> (string \<times> json) list" where
  "named name ms = filter (\<lambda>m. fold_name (fst m) = name) ms"

subsection \<open>Reading a JSON array of strings\<close>

text \<open>
  The reader on the other side of the wire: a JSON array of strings (RFC 8259), read in
  one pass. An escape with \<open>\u\<close> is not read (\<open>None\<close>).
\<close>

datatype scan_state = Start | Opened | NeedString | InString | Escaped | AfterString | Closed

definition is_ws :: "char \<Rightarrow> bool" where
  "is_ws c = (c = CHR '' '' \<or> c = CHR 0x09 \<or> c = CHR 0x0A \<or> c = CHR 0x0D)"

definition json_escape :: "char \<Rightarrow> char option" where
  "json_escape c =
     (if c = CHR 0x22 \<or> c = CHR 0x5C \<or> c = CHR ''/'' then Some c
      else if c = CHR ''b'' then Some (CHR 0x08)
      else if c = CHR ''f'' then Some (CHR 0x0C)
      else if c = CHR ''n'' then Some (CHR 0x0A)
      else if c = CHR ''r'' then Some (CHR 0x0D)
      else if c = CHR ''t'' then Some (CHR 0x09)
      else None)"

fun scan :: "scan_state \<Rightarrow> string list \<Rightarrow> string \<Rightarrow> string \<Rightarrow> string list option" where
  "scan st acc cur [] = (if st = Closed then Some acc else None)"
| "scan Start acc cur (c # cs) =
     (if is_ws c then scan Start acc cur cs
      else if c = CHR ''['' then scan Opened acc cur cs else None)"
| "scan Opened acc cur (c # cs) =
     (if is_ws c then scan Opened acc cur cs
      else if c = CHR '']'' then scan Closed acc cur cs
      else if c = CHR 0x22 then scan InString acc [] cs else None)"
| "scan NeedString acc cur (c # cs) =
     (if is_ws c then scan NeedString acc cur cs
      else if c = CHR 0x22 then scan InString acc [] cs else None)"
| "scan InString acc cur (c # cs) =
     (if c = CHR 0x22 then scan AfterString (acc @ [cur]) [] cs
      else if c = CHR 0x5C then scan Escaped acc cur cs
      else if (of_char c :: nat) < 32 then None
      else scan InString acc (cur @ [c]) cs)"
| "scan Escaped acc cur (c # cs) =
     (case json_escape c of None \<Rightarrow> None | Some d \<Rightarrow> scan InString acc (cur @ [d]) cs)"
| "scan AfterString acc cur (c # cs) =
     (if is_ws c then scan AfterString acc cur cs
      else if c = CHR '','' then scan NeedString acc cur cs
      else if c = CHR '']'' then scan Closed acc cur cs else None)"
| "scan Closed acc cur (c # cs) = (if is_ws c then scan Closed acc cur cs else None)"

definition decode_string_array :: "string \<Rightarrow> string list option" where
  "decode_string_array s = scan Start [] [] s"

text \<open>The ASCII bytes that \<open>Quote\<close> writes in a way that JSON reads back.\<close>

definition json_safe :: "char \<Rightarrow> bool" where
  "json_safe c = ((32 \<le> (of_char c :: nat) \<and> (of_char c :: nat) < 127) \<or>
                  c = CHR 0x08 \<or> c = CHR 0x09 \<or> c = CHR 0x0A \<or> c = CHR 0x0C \<or> c = CHR 0x0D)"

subsection \<open>A server with three pages\<close>

text \<open>
  The bytes of a document, and a mock server: three pages of forty records, the first two
  with a locator for the next page, the last with no paging descriptor.
\<close>

fun render :: "json \<Rightarrow> string" where
  "render JNull = ''null''"
| "render (JBool b) = (if b then ''true'' else ''false'')"
| "render (JNum n) = fmt_d n"
| "render (JFloat s) = s"
| "render (JStr s) = Quote s"
| "render (JArr xs) = ''['' @ Join (map render xs) '','' @ '']''"
| "render (JObj ms) = ''{'' @ Join (map (\<lambda>m. Quote (fst m) @ '':'' @ render (snd m)) ms) '','' @ ''}''"

definition json_payload :: "json \<Rightarrow> payload" where
  "json_payload j = \<lparr>raw = render j, doc = Some j\<rparr>"

definition no_header :: payload where
  "no_header = \<lparr>raw = [], doc = None\<rparr>"

definition ads :: "nat \<Rightarrow> nat \<Rightarrow> json list" where
  "ads a n = map (\<lambda>i. JObj [(''id'', JStr (fmt_d (int i)))]) [a..<a + n]"

definition page_body :: "json list \<Rightarrow> string \<Rightarrow> payload" where
  "page_body d nx =
     json_payload (JObj ((''data'', JArr d) #
       (if nx = [] then [] else [(''paging'', JObj [(''next'', JStr nx)])])))"

definition page_response :: "json list \<Rightarrow> string \<Rightarrow> response" where
  "page_response d nx = \<lparr>StatusCode = 200, X_App_Usage = no_header, Body = Inr (page_body d nx)\<rparr>"

definition decoded_page :: "json list \<Rightarrow> string \<Rightarrow> page" where
  "decoded_page d nx =
     \<lparr>Data = d,
      Paging = (if nx = [] then None else Some \<lparr>Cursors = None, Next = nx, Previous = []\<rparr>)\<rparr>"

definition locator1 :: string where
  "locator1 = ''https://graph.facebook.com/v23.0/ads_archive?access_token=TOK&limit=100&after=c1''"

definition locator2 :: string where
  "locator2 = ''https://graph.facebook.com/v23.0/ads_archive?access_token=TOK&limit=100&after=c2''"

definition three_pages :: "response list" where
  "three_pages =
     [page_response (ads 0 40) locator1, page_response (ads 40 40) locator2,
      page_response (ads 80 40) []]"

definition pages0 :: "page list" where
  "pages0 = [decoded_page (ads 0 40) locator1, decoded_page (ads 40 40) locator2,
             decoded_page (ads 80 40) []]"


definition follow1 :: request where
  "follow1 =
     \<lparr>Target = ''https://graph.facebook.com/v23.0/ads_archive'',
      Query = [(''access_token'', [''TOK'']), (''limit'', [''100'']), (''after'', [''c1''])]\<rparr>"

definition follow2 :: request where
  "follow2 =
     \<lparr>Target = ''https://graph.facebook.com/v23.0/ads_archive'',
      Query = [(''access_token'', [''TOK'']), (''limit'', [''100'']), (''after'', [''c2''])]\<rparr>"

definition error_response :: response where
  "error_response =
     \<lparr>StatusCode = 500, X_App_Usage = no_header,
      Body = Inr (json_payload (JObj [(''error'',
               JObj [(''message'', JStr ''An unknown error occurred''),
                     (''type'', JStr ''OAuthException''), (''code'', JNum 1)])]))\<rparr>"

definition client0 :: Client where
  "client0 = \<lparr>token = ''TOK''\<rparr>"

text \<open>
  For the examples the libraries refuse every URL that is not plain, and word every error
  of Unmarshal alike.
\<close>

definition libs0 :: libraries where
  "libs0 = \<lparr>Parse_rest = (\<lambda>u. Inl (Lib ''net/url: invalid URL'')),
             NewRequest_rest = (\<lambda>r. Some (Lib ''net/http: invalid URL'')),
             Unmarshal_text = (\<lambda>t b. ''json: cannot unmarshal'')\<rparr>"

definition world0 :: world where
  "world0 =
     \<lparr>transport = map Responded three_pages, requests = [], stderr = [],
      heap = [[(''search_terms'', [''shoes''])]], config_file = None, save_failure = None,
      libs = libs0\<rparr>"

text \<open>The same server, when the second request is answered with an error.\<close>

definition world1 :: world where
  "world1 =
     world0\<lparr>transport := [Responded (page_response (ads 0 40) locator1), Responded error_response,
                           Responded (page_response (ads 80 40) [])]\<rparr>"

text \<open>
  A server with two pages, whose locator gives the cursor as \<^verbatim>\<open>c;1\<close>, and what a search
  sends to it.
\<close>

definition locator3 :: string where
  "locator3 = ''https://graph.facebook.com/v23.0/ads_archive?access_token=TOK&limit=100&after=c;1''"


definition follow3 :: request where
  "follow3 =
     \<lparr>Target = ''https://graph.facebook.com/v23.0/ads_archive'',
      Query = [(''access_token'', [''TOK'']), (''limit'', [''100''])]\<rparr>"

subsection \<open>Single responses and a search command\<close>

definition request0 :: request where
  "request0 = \<lparr>Target = ''https://graph.facebook.com/v23.0/ads_archive'',
               Query = [(''access_token'', [''TOK''])]\<rparr>"

definition serving :: "outcome list \<Rightarrow> world" where
  "serving outs = world0\<lparr>transport := outs\<rparr>"

text \<open>An error payload under status 200, a plain 404, and an error object with a string for a code.\<close>

definition error_200 :: response where
  "error_200 =
     \<lparr>StatusCode = 200, X_App_Usage = no_header,
      Body = Inr (json_payload (JObj [(''error'',
               JObj [(''message'', JStr ''Invalid OAuth access token.''),
                     (''type'', JStr ''OAuthException''), (''code'', JNum 190)])]))\<rparr>"

definition not_found :: response where
  "not_found = \<lparr>StatusCode = 404, X_App_Usage = no_header, Body = Inr \<lparr>raw = ''Not Found'', doc = None\<rparr>\<rparr>"

definition mistyped_error :: payload where
  "mistyped_error =
     json_payload (JObj [(''error'',
       JObj [(''message'', JStr ''Invalid OAuth access token.''), (''code'', JStr ''190'')])])"

definition mistyped_200 :: response where
  "mistyped_200 = \<lparr>StatusCode = 200, X_App_Usage = no_header, Body = Inr mistyped_error\<rparr>"

definition defaultFields :: string where
  "defaultFields =
     ''id,ad_creation_time,ad_delivery_start_time,ad_delivery_stop_time,'' @
     ''ad_creative_bodies,ad_creative_link_titles,ad_creative_link_captions,'' @
     ''ad_snapshot_url,page_id,page_name,publisher_platforms,languages,'' @
     ''spend,impressions,currency''"

definition flags0 :: search_flags where
  "flags0 =
     \<lparr>searchQuery = ''shoes'', searchCountries = [''US'', ''DE''], searchPageIDs = [],
      searchAdType = ''ALL'', searchStatus = ''ALL'', searchDateMin = [], searchDateMax = [],
      searchPlatforms = [], searchLanguages = [], searchLimit = 25,
      searchFields = defaultFields, searchMediaType = []\<rparr>"

subsection \<open>Credentials\<close>

text \<open>
  For the examples the methods of package config answer as their counterparts of package
  metaauth do. The clock stands at 1700000000 seconds.
\<close>

definition example_IsExpired :: "int \<Rightarrow> Config \<Rightarrow> bool" where
  "example_IsExpired now cfg =
     (TokenExpiresAt cfg \<noteq> 0 \<and> Time_After (time_Now now) (time_Unix (TokenExpiresAt cfg)))"

definition example_DaysUntilExpiry :: "int \<Rightarrow> Config \<Rightarrow> int" where
  "example_DaysUntilExpiry now cfg =
     (if TokenExpiresAt cfg = 0 then - 1
      else (let d = time_Until (time_Unix (TokenExpiresAt cfg)) now
            in if d < 0 then 0 else d div (24 * 3600 * second)))"

definition now0 :: int where
  "now0 = 1700000000 * second"

definition no_config :: Config where
  "no_config = \<lparr>AccessToken = [], UserID = [], UserName = [], TokenExpiresAt = 0\<rparr>"

definition env0 :: environment where
  "env0 =
     \<lparr>META_TOKEN = [], META_APP_ID = [], META_APP_SECRET = [], own_config = Inr no_config,
      IsExpired = example_IsExpired now0, DaysUntilExpiry = example_DaysUntilExpiry now0,
      shared_file = NotExist, now_ns = now0\<rparr>"

text \<open>A local token that expires in three days, and a shared token that expired.\<close>

definition own_3_days :: Config where
  "own_3_days = \<lparr>AccessToken = ''OWN'', UserID = ''42'', UserName = ''Ada'',
                 TokenExpiresAt = 1700259200\<rparr>"

definition shared_expired :: config_read where
  "shared_expired =
     Contents (json_payload (JObj [(''access_token'', JStr ''SHARED''),
                                   (''token_expires_at'', JNum 1699990000)]))"






section \<open>The pagination engine\<close>

subsection \<open>One turn of the loop\<close>

lemma checkRateLimit_requests [simp]: "requests (checkRateLimit u w) = requests w"
  by (simp add: checkRateLimit_def Let_def split: option.splits)

lemma checkRateLimit_heap [simp]: "heap (checkRateLimit u w) = heap w"
  by (simp add: checkRateLimit_def Let_def split: option.splits)

lemma checkRateLimit_libs [simp]: "libs (checkRateLimit u w) = libs w"
  by (simp add: checkRateLimit_def Let_def split: option.splits)

lemma sent_fields [simp]:
  "requests (sent req w) = requests w @ [req]"
  "transport (sent req w) = tl (transport w)"
  "heap (sent req w) = heap w"
  "libs (sent req w) = libs w"
  by (simp_all add: sent_def)

lemma answered_fields [simp]:
  "requests (answered req resp w) = requests w @ [req]"
  "transport (answered req resp w) = tl (transport w)"
  "heap (answered req resp w) = heap w"
  "libs (answered req resp w) = libs w"
  by (simp_all add: answered_def)

lemma new_Values_libs [simp]: "libs (snd (new_Values w)) = libs w"
  by (simp add: new_Values_def)

lemma Get_request_of:
  "Get c path params w =
     (case request_of (libs w) c path params of
        Inl err \<Rightarrow> Some (Inl err, w)
      | Inr req \<Rightarrow> doRequest req w)"
  by (simp add: Get_def request_of_def split: sum.splits option.splits)

lemma deref_new [simp]: "deref (snd (new_Values w)) (fst (new_Values w)) = []"
  by (simp add: deref_def new_Values_def)

lemma new_Values_requests [simp]: "requests (snd (new_Values w)) = requests w"
  by (simp add: new_Values_def)

lemma new_Values_heap: "heap (snd (new_Values w)) = heap w @ [[]]"
  by (simp add: new_Values_def)

lemma doRequest_page:
  assumes "transport w = Responded resp # rest" and "page_of resp = Some pg"
  shows "\<exists>body. unmarshal_page body = Some pg \<and>
           doRequest req w = Some (Inr body, answered req resp w)"
  using assms
  by (auto simp: doRequest_def Do_def page_of_def error_payload_def answered_def sent_def Let_def
      split: sum.splits option.splits if_splits)

lemma doRequest_fails:
  assumes "transport w = out # rest" and "failure_of out = Some e"
  shows "\<exists>w'. (doRequest req w = Some (Inl e, w') \<or>
            (\<exists>body. doRequest req w = Some (Inr body, w') \<and> unmarshal_page body = None \<and>
               e = Wrap ''parsing page: '' (Json ''page'' body))) \<and>
           requests w' = requests w @ [req] \<and> transport w' = rest \<and> heap w' = heap w"
  using assms
  by (auto simp: doRequest_def Do_def error_payload_def failure_of_def Let_def
      split: sum.splits option.splits if_splits outcome.splits)

lemma loop_page:
  assumes "transport w = Responded resp # rest" and "page_of resp = Some pg"
      and "request_of (libs w) c path (deref w p) = Inr req"
  shows "SearchAds_loop c limit path p all w =
     (let w1 = answered req resp w; all' = all @ Data pg in
      if limit > 0 \<and> int (length all') \<ge> limit then Some (Inr (take (nat limit) all'), w1)
      else if next_locator pg = [] then Some (Inr all', w1)
      else SearchAds_loop c limit (next_locator pg) (fst (new_Values w1)) all' (snd (new_Values w1)))"
proof -
  from doRequest_page [OF assms(1,2), of req] obtain body where
    b: "unmarshal_page body = Some pg"
       "doRequest req w = Some (Inr body, answered req resp w)"
    by blast
  show ?thesis
    by (subst SearchAds_loop.simps)
       (simp add: Get_request_of assms(3) b Let_def next_locator_def split: option.splits)
qed

lemma loop_fails:
  assumes "transport w = out # rest" and "failure_of out = Some e"
      and "request_of (libs w) c path (deref w p) = Inr req"
  shows "\<exists>w'. SearchAds_loop c limit path p all w = Some (Inl e, w') \<and>
           requests w' = requests w @ [req] \<and> transport w' = rest \<and> heap w' = heap w"
proof -
  from doRequest_fails [OF assms(1,2), of req] obtain w' where
    d: "doRequest req w = Some (Inl e, w') \<or>
        (\<exists>body. doRequest req w = Some (Inr body, w') \<and> unmarshal_page body = None \<and>
           e = Wrap ''parsing page: '' (Json ''page'' body))"
    and r: "requests w' = requests w @ [req]" "transport w' = rest" "heap w' = heap w"
    by blast
  from d show ?thesis
  proof
    assume "doRequest req w = Some (Inl e, w')"
    then show ?thesis
      using r by (subst SearchAds_loop.simps) (simp add: Get_request_of assms(3))
  next
    assume "\<exists>body. doRequest req w = Some (Inr body, w') \<and> unmarshal_page body = None \<and>
           e = Wrap ''parsing page: '' (Json ''page'' body)"
    then show ?thesis
      using r by (subst SearchAds_loop.simps) (auto simp: Get_request_of assms(3))
  qed
qed

subsection \<open>Counting the pages\<close>

lemma stops_Suc:
  "0 < j \<Longrightarrow> stops limit n (pg # pgs) (Suc j) = stops limit (n + length (Data pg)) pgs j"
  by (cases j) (simp_all add: stops_def limit_reached_def cursor_exhausted_def add.assoc)

lemma stops_1:
  "stops limit n (pg # pgs) (Suc 0) =
     ((limit > 0 \<and> int (n + length (Data pg)) \<ge> limit) \<or> next_locator pg = [])"
  by (simp add: stops_def limit_reached_def cursor_exhausted_def)

lemma heap_prefix_trans:
  assumes "take (length (heap w2)) (heap w') = heap w2" and "heap w2 = heap w @ extra"
  shows "take (length (heap w)) (heap w') = heap w"
proof -
  have "take (length (heap w)) (take (length (heap w2)) (heap w')) = take (length (heap w)) (heap w2)"
    using assms(1) by simp
  then show ?thesis by (simp add: assms(2) min_def)
qed

subsection \<open>A run over well-formed pages\<close>

lemma loop_pages:
  assumes "transport w = map Responded rs @ rest"
      and "map page_of rs = map Some pgs"
      and "0 < k" and "k \<le> length pgs"
      and "stops limit (length all) pgs k"
      and "\<forall>j. 0 < j \<and> j < k \<longrightarrow> \<not> stops limit (length all) pgs j"
      and "request_of lib c path (deref w p) = Inr req"
      and "map (\<lambda>pg. request_of lib c (next_locator pg) []) (take (k - 1) pgs) = map Inr reqs"
      and "libs w = lib"
  shows "\<exists>w'. SearchAds_loop c limit path p all w =
                 Some (Inr (cutoff limit (all @ concat (map Data (take k pgs)))), w') \<and>
               requests w' = requests w @ req # reqs \<and>
               transport w' = drop k (map Responded rs) @ rest \<and>
               take (length (heap w)) (heap w') = heap w"
  using assms
proof (induction pgs arbitrary: rs k all path p w req reqs)
  case Nil
  then show ?case by simp
next
  case (Cons pg pgs)
  from Cons.prems(2) obtain r rs' where rs: "rs = r # rs'" "page_of r = Some pg"
    "map page_of rs' = map Some pgs"
    by (cases rs) auto
  let ?w1 = "answered req r w"
  let ?all = "all @ Data pg"
  have tr: "transport w = Responded r # (map Responded rs' @ rest)"
    using Cons.prems(1) rs by simp
  have rq: "request_of (libs w) c path (deref w p) = Inr req"
    using Cons.prems(7,9) by simp
  note step = loop_page [OF tr rs(2) rq, of limit all]
  show ?case
  proof (cases "k = 1")
    case True
    with Cons.prems(5) have st: "(limit > 0 \<and> int (length ?all) \<ge> limit) \<or> next_locator pg = []"
      by (simp add: stops_1)
    have us: "reqs = []" using Cons.prems(8) True by simp
    have res: "SearchAds_loop c limit path p all w = Some (Inr (cutoff limit ?all), ?w1)"
      using st by (auto simp: step Let_def cutoff_def)
    show ?thesis
      using True rs tr by (simp add: res us)
  next
    case False
    then obtain k' where k: "k = Suc k'" "0 < k'"
      using Cons.prems(3) by (cases k) auto
    have "\<not> stops limit (length all) (pg # pgs) (Suc 0)"
      using Cons.prems(6) k by simp
    then have ns: "\<not> (limit > 0 \<and> int (length ?all) \<ge> limit)" "next_locator pg \<noteq> []"
      by (simp_all add: stops_1)
    let ?p = "fst (new_Values ?w1)"
    let ?w2 = "snd (new_Values ?w1)"
    have cont: "SearchAds_loop c limit path p all w =
                  SearchAds_loop c limit (next_locator pg) ?p ?all ?w2"
      using ns by (auto simp: step Let_def)
    from Cons.prems(8) k obtain u us' where uq: "reqs = u # us'"
      "request_of lib c (next_locator pg) [] = Inr u"
      "map (\<lambda>pg. request_of lib c (next_locator pg) []) (take (k' - 1) pgs) = map Inr us'"
      by (cases reqs) (auto simp: take_Cons')
    have "\<exists>w'. SearchAds_loop c limit (next_locator pg) ?p ?all ?w2 =
                 Some (Inr (cutoff limit (?all @ concat (map Data (take k' pgs)))), w') \<and>
               requests w' = requests ?w2 @ u # us' \<and>
               transport w' = drop k' (map Responded rs') @ rest \<and>
               take (length (heap ?w2)) (heap w') = heap ?w2"
    proof (rule Cons.IH [OF _ rs(3) k(2)])
      show "transport ?w2 = map Responded rs' @ rest" using tr by simp
      show "k' \<le> length pgs" using Cons.prems(4) k by simp
      show "stops limit (length ?all) pgs k'"
        using Cons.prems(5) k by (simp add: stops_Suc)
      show "\<forall>j. 0 < j \<and> j < k' \<longrightarrow> \<not> stops limit (length ?all) pgs j"
      proof (intro allI impI)
        fix j assume j: "0 < j \<and> j < k'"
        then have "\<not> stops limit (length all) (pg # pgs) (Suc j)"
          using Cons.prems(6) k by simp
        then show "\<not> stops limit (length ?all) pgs j"
          using j by (simp add: stops_Suc)
      qed
      show "request_of lib c (next_locator pg) (deref ?w2 ?p) = Inr u"
        by (simp add: uq(2))
      show "map (\<lambda>pg. request_of lib c (next_locator pg) []) (take (k' - 1) pgs) = map Inr us'"
        by (rule uq(3))
      show "libs ?w2 = lib"
        using Cons.prems(9) by simp
    qed
    then obtain w' where w': "SearchAds_loop c limit (next_locator pg) ?p ?all ?w2 =
                 Some (Inr (cutoff limit (?all @ concat (map Data (take k' pgs)))), w')"
               "requests w' = requests ?w2 @ u # us'"
               "transport w' = drop k' (map Responded rs') @ rest"
               "take (length (heap ?w2)) (heap w') = heap ?w2"
      by blast
    have hp: "take (length (heap w)) (heap w') = heap w"
      by (rule heap_prefix_trans [OF w'(4)]) (simp add: new_Values_heap)
    show ?thesis
      using w'(1,2,3) hp by (simp add: cont k rs uq(1))
  qed
qed

subsection \<open>A run that meets a failed request\<close>

lemma loop_abort:
  assumes "transport w = map Responded rs @ bad # rest"
      and "map page_of rs = map Some pgs"
      and "\<forall>j. 0 < j \<and> j \<le> length pgs \<longrightarrow> \<not> stops limit (length all) pgs j"
      and "failure_of bad = Some e"
      and "request_of lib c path (deref w p) = Inr req"
      and "map (\<lambda>pg. request_of lib c (next_locator pg) []) pgs = map Inr reqs"
      and "libs w = lib"
  shows "\<exists>w'. SearchAds_loop c limit path p all w = Some (Inl e, w') \<and>
               requests w' = requests w @ req # reqs \<and>
               transport w' = rest \<and>
               take (length (heap w)) (heap w') = heap w"
  using assms
proof (induction pgs arbitrary: rs all path p w req reqs)
  case Nil
  then have t: "transport w = bad # rest" and u: "reqs = []"
    and rq: "request_of (libs w) c path (deref w p) = Inr req" by simp_all
  from loop_fails [OF t Nil.prems(4) rq, of limit all] u show ?case by auto
next
  case (Cons pg pgs)
  from Cons.prems(2) obtain r rs' where rs: "rs = r # rs'" "page_of r = Some pg"
    "map page_of rs' = map Some pgs"
    by (cases rs) auto
  let ?w1 = "answered req r w"
  let ?all = "all @ Data pg"
  let ?p = "fst (new_Values ?w1)"
  let ?w2 = "snd (new_Values ?w1)"
  have tr: "transport w = Responded r # (map Responded rs' @ bad # rest)"
    using Cons.prems(1) rs by simp
  have "\<not> stops limit (length all) (pg # pgs) (Suc 0)"
    using Cons.prems(3) by simp
  then have ns: "\<not> (limit > 0 \<and> int (length ?all) \<ge> limit)" "next_locator pg \<noteq> []"
    by (simp_all add: stops_1)
  have rq: "request_of (libs w) c path (deref w p) = Inr req"
    using Cons.prems(5,7) by simp
  have cont: "SearchAds_loop c limit path p all w =
                SearchAds_loop c limit (next_locator pg) ?p ?all ?w2"
    using ns by (auto simp: loop_page [OF tr rs(2) rq] Let_def)
  from Cons.prems(6) obtain u us' where uq: "reqs = u # us'"
    "request_of lib c (next_locator pg) [] = Inr u"
    "map (\<lambda>pg. request_of lib c (next_locator pg) []) pgs = map Inr us'"
    by (cases reqs) auto
  have "\<exists>w'. SearchAds_loop c limit (next_locator pg) ?p ?all ?w2 = Some (Inl e, w') \<and>
               requests w' = requests ?w2 @ u # us' \<and>
               transport w' = rest \<and>
               take (length (heap ?w2)) (heap w') = heap ?w2"
  proof (rule Cons.IH [OF _ rs(3) _ Cons.prems(4) _ uq(3)])
    show "transport ?w2 = map Responded rs' @ bad # rest" using tr by simp
    show "\<forall>j. 0 < j \<and> j \<le> length pgs \<longrightarrow> \<not> stops limit (length ?all) pgs j"
    proof (intro allI impI)
      fix j assume j: "0 < j \<and> j \<le> length pgs"
      then have "\<not> stops limit (length all) (pg # pgs) (Suc j)"
        using Cons.prems(3) by simp
      then show "\<not> stops limit (length ?all) pgs j"
        using j by (simp add: stops_Suc)
    qed
    show "request_of lib c (next_locator pg) (deref ?w2 ?p) = Inr u"
      by (simp add: uq(2))
    show "libs ?w2 = lib"
      using Cons.prems(7) by simp
  qed
  then obtain w' where w': "SearchAds_loop c limit (next_locator pg) ?p ?all ?w2 = Some (Inl e, w')"
               "requests w' = requests ?w2 @ u # us'"
               "transport w' = rest"
               "take (length (heap ?w2)) (heap w') = heap ?w2"
    by blast
  have hp: "take (length (heap w)) (heap w') = heap w"
    by (rule heap_prefix_trans [OF w'(4)]) (simp add: new_Values_heap)
  show ?case
    using w'(1,2,3) hp by (simp add: cont uq(1))
qed

subsection \<open>The maps the loop creates\<close>

lemma Do_heap: "Do req w = Some (out, w') \<Longrightarrow> heap w' = heap w"
  by (auto simp: Do_def split: list.splits)

lemma doRequest_heap: "doRequest req w = Some (r, w') \<Longrightarrow> heap w' = heap w"
  by (auto simp: doRequest_def Let_def dest!: Do_heap
      split: option.splits outcome.splits sum.splits if_splits)

lemma Get_heap: "Get c path params w = Some (r, w') \<Longrightarrow> heap w' = heap w"
  by (auto simp: Get_def dest: doRequest_heap split: sum.splits option.splits)

lemma loop_heap:
  "SearchAds_loop c limit path p all w = Some (r, w') \<Longrightarrow>
     take (length (heap w)) (heap w') = heap w"
proof (induction c limit path p all w arbitrary: r w' rule: SearchAds_loop.induct)
  case (1 c limit currentPath p all w)
  from "1.prems" obtain g w1 where g: "Get c currentPath (deref w p) w = Some (g, w1)"
    by (subst (asm) SearchAds_loop.simps) (auto split: option.splits)
  then have h1: "heap w1 = heap w" by (rule Get_heap)
  show ?case
  proof (cases g)
    case (Inl e)
    with "1.prems" g h1 show ?thesis
      by (subst (asm) SearchAds_loop.simps) auto
  next
    case (Inr body)
    show ?thesis
    proof (cases "unmarshal_page body")
      case None
      with "1.prems" g h1 Inr show ?thesis
        by (subst (asm) SearchAds_loop.simps) auto
    next
      case (Some pg)
      let ?all = "all @ Data pg"
      show ?thesis
      proof (cases "(limit > 0 \<and> int (length ?all) \<ge> limit) \<or> next_locator pg = []")
        case True
        with "1.prems" g h1 Inr Some show ?thesis
          by (subst (asm) SearchAds_loop.simps)
             (auto simp: Let_def next_locator_def split: option.splits if_splits)
      next
        case False
        then obtain paging where pa: "Paging pg = Some paging" "Next paging \<noteq> []"
          by (auto simp: next_locator_def split: option.splits)
        have rec: "SearchAds_loop c limit (Next paging) (fst (new_Values w1)) ?all (snd (new_Values w1))
                     = Some (r, w')"
          using "1.prems" g Inr Some False pa
          by (subst (asm) SearchAds_loop.simps) (auto simp: Let_def next_locator_def)
        have nl: "\<not> (0 < limit \<and> limit \<le> int (length ?all))"
          using False by simp
        have "take (length (heap (snd (new_Values w1)))) (heap w') = heap (snd (new_Values w1))"
          by (rule "1.IH" [OF g refl Inr Some refl nl pa(1) pa(2) rec])
        then show ?thesis
          by (rule heap_prefix_trans) (simp add: new_Values_heap h1)
      qed
    qed
  qed
qed

subsection \<open>Entering the loop\<close>

lemma clone_into_heap:
  "p < length (heap w) \<Longrightarrow>
     clone_into p entries w =
       w\<lparr>heap := (heap w)[p := fold (\<lambda>(k, v). AList.update k v) entries (heap w ! p)]\<rparr>"
proof (induction entries arbitrary: w)
  case Nil
  then show ?case by (simp add: clone_into_def)
next
  case (Cons e entries)
  obtain k v where e: "e = (k, v)" by (cases e)
  let ?w = "store p (AList.update k v (deref w p)) w"
  have "clone_into p (e # entries) w = clone_into p entries ?w"
    by (simp add: clone_into_def e)
  also have "\<dots> = ?w\<lparr>heap := (heap ?w)[p := fold (\<lambda>(k, v). AList.update k v) entries (heap ?w ! p)]\<rparr>"
    using Cons.prems by (intro Cons.IH) (simp add: store_def)
  also have "\<dots> = w\<lparr>heap := (heap w)[p := fold (\<lambda>(k, v). AList.update k v) (e # entries) (heap w ! p)]\<rparr>"
    using Cons.prems by (simp add: store_def deref_def e)
  finally show ?case .
qed

lemma deref_new_params: "deref (snd (new_Values w)) params = deref w params"
  by (auto simp: deref_def new_Values_def nth_append)

lemma SearchAds_eq:
  "SearchAds c params limit w =
     SearchAds_loop c limit adLibPath (length (heap w)) []
       (w\<lparr>heap := heap w @ [working_params (deref w params)]\<rparr>)"
proof -
  let ?w1 = "snd (new_Values w)"
  let ?p = "length (heap w)"
  let ?m = "fold (\<lambda>(k, v). AList.update k v) (deref w params) []"
  let ?w2 = "w\<lparr>heap := heap w @ [?m]\<rparr>"
  have p: "?p < length (heap ?w1)" by (simp add: new_Values_def)
  have f: "fst (new_Values w) = ?p" by (simp add: new_Values_def)
  have c: "clone_into ?p (deref ?w1 params) ?w1 = ?w2"
    by (simp add: clone_into_heap [OF p] deref_new_params) (simp add: new_Values_def)
  have d: "deref ?w2 ?p = ?m" by (simp add: deref_def)
  have s: "store ?p v ?w2 = w\<lparr>heap := heap w @ [v]\<rparr>" for v
    by (simp add: store_def)
  show ?thesis
    unfolding SearchAds_def Let_def f c d s working_params_def
    by simp
qed

lemma no_empty_update:
  "no_empty_slice m \<Longrightarrow> vs \<noteq> [] \<Longrightarrow> no_empty_slice (AList.update k vs m)"
  by (induction m) (auto simp: no_empty_slice_def)

lemma no_empty_fold:
  "no_empty_slice entries \<Longrightarrow> no_empty_slice m \<Longrightarrow>
     no_empty_slice (fold (\<lambda>(k, v). AList.update k v) entries m)"
proof (induction entries arbitrary: m)
  case Nil
  then show ?case by simp
next
  case (Cons e entries)
  obtain k v where e: "e = (k, v)" by (cases e)
  from Cons.prems(1) have v: "v \<noteq> []" and es: "no_empty_slice entries"
    by (simp_all add: no_empty_slice_def e)
  show ?case
    using Cons.IH [OF es no_empty_update [OF Cons.prems(2) v]] by (simp add: e)
qed

lemma no_empty_working: "no_empty_slice entries \<Longrightarrow> no_empty_slice (working_params entries)"
proof -
  assume a: "no_empty_slice entries"
  have n: "no_empty_slice []" by (simp add: no_empty_slice_def)
  have m: "no_empty_slice (fold (\<lambda>(k, v). AList.update k v) entries [])"
    by (rule no_empty_fold [OF a n])
  show ?thesis
    using m by (simp add: working_params_def Let_def Values_Set_def no_empty_update)
qed

lemma set_all_ok: "no_empty_slice m \<Longrightarrow> \<exists>q'. set_all m q = Inr q'"
  by (induction m q rule: set_all.induct) (auto simp: no_empty_slice_def split: list.splits)

lemma plain_endpoint:
  "plain_target ''https://graph.facebook.com/v23.0/ads_archive''"
  "plain_URL ''https://graph.facebook.com/v23.0/ads_archive''"
  by (simp_all add: plain_URL_def plain_target_def after_scheme_def HasPrefix_def Cut_def
      plain_authority_def host_char_def path_char_def is_letter_def is_digit_def is_ctl_def)

lemma url_Parse_endpoint:
  "url_Parse lib (baseURL @ adLibPath) =
     Inr \<lparr>Location = ''https://graph.facebook.com/v23.0/ads_archive'', RawQuery = []\<rparr>"
  using plain_endpoint(2) by (simp add: url_Parse_def baseURL_def adLibPath_def Cut_def)

lemma request_first:
  assumes "no_empty_slice extra"
  shows "\<exists>req. request_of lib c adLibPath extra = Inr req"
proof -
  have hp: "\<not> HasPrefix adLibPath ''http''" by (simp add: HasPrefix_def adLibPath_def)
  obtain q where q: "set_all (baseParams c) (ParseQuery []) = Inr q"
    by (auto simp: baseParams_def Values_Set_def)
  from set_all_ok [OF assms] obtain q' where q': "set_all extra q = Inr q'" by blast
  have b: "buildURL lib adLibPath (baseParams c) extra =
             Inr \<lparr>Target = ''https://graph.facebook.com/v23.0/ads_archive'', Query = q'\<rparr>"
    by (simp add: buildURL_def hp url_Parse_endpoint q q')
  show ?thesis
    by (simp add: request_of_def b NewRequest_def plain_endpoint(1))
qed

text \<open>The two runs, from \<open>SearchAds\<close>.\<close>

lemma SearchAds_run:
  assumes "transport w = map Responded rs @ rest"
      and "map page_of rs = map Some pgs"
      and "no_empty_slice (deref w params)"
      and "map (\<lambda>pg. request_of (libs w) c (next_locator pg) []) (take (k - 1) pgs) = map Inr reqs"
      and "0 < k" and "k \<le> length pgs"
      and "\<forall>j. 0 < j \<and> j < k \<longrightarrow> \<not> stops limit 0 pgs j"
      and "stops limit 0 pgs k"
  shows "\<exists>first w'. request_of (libs w) c adLibPath (working_params (deref w params)) = Inr first \<and>
           SearchAds c params limit w =
             Some (Inr (cutoff limit (concat (map Data (take k pgs)))), w') \<and>
           requests w' = requests w @ first # reqs \<and>
           transport w' = drop k (map Responded rs) @ rest \<and>
           take (length (heap w)) (heap w') = heap w"
proof -
  let ?w = "w\<lparr>heap := heap w @ [working_params (deref w params)]\<rparr>"
  from request_first [OF no_empty_working [OF assms(3)]] obtain first where
    f: "request_of (libs w) c adLibPath (working_params (deref w params)) = Inr first"
    by blast
  have d: "deref ?w (length (heap w)) = working_params (deref w params)"
    by (simp add: deref_def)
  have "\<exists>w'. SearchAds_loop c limit adLibPath (length (heap w)) [] ?w =
                 Some (Inr (cutoff limit ([] @ concat (map Data (take k pgs)))), w') \<and>
               requests w' = requests ?w @ first # reqs \<and>
               transport w' = drop k (map Responded rs) @ rest \<and>
               take (length (heap ?w)) (heap w') = heap ?w"
    by (rule loop_pages [where rs = rs and pgs = pgs and lib = "libs w"])
       (use assms f in \<open>simp_all add: d\<close>)
  then obtain w' where w': "SearchAds_loop c limit adLibPath (length (heap w)) [] ?w =
                 Some (Inr (cutoff limit (concat (map Data (take k pgs)))), w')"
               "requests w' = requests w @ first # reqs"
               "transport w' = drop k (map Responded rs) @ rest"
               "take (length (heap ?w)) (heap w') = heap ?w"
    by auto
  have "take (length (heap w)) (heap w') = heap w"
    by (rule heap_prefix_trans [OF w'(4)]) simp
  with f w' show ?thesis by (simp add: SearchAds_eq)
qed

lemma SearchAds_frame:
  assumes "SearchAds c params limit w = Some (r, w')"
  shows "take (length (heap w)) (heap w') = heap w"
proof -
  let ?w = "w\<lparr>heap := heap w @ [working_params (deref w params)]\<rparr>"
  from assms have "SearchAds_loop c limit adLibPath (length (heap w)) [] ?w = Some (r, w')"
    by (simp add: SearchAds_eq)
  then have "take (length (heap ?w)) (heap w') = heap ?w"
    by (rule loop_heap)
  then show ?thesis
    by (rule heap_prefix_trans) simp
qed

subsection \<open>Requests that follow a plain locator\<close>

lemma HasPrefix_takeWhile:
  assumes "HasPrefix (takeWhile P l) pre"
  shows "HasPrefix l pre"
proof -
  have t: "take (length pre) (takeWhile P l) = pre"
    using assms by (simp add: HasPrefix_def)
  then have n: "length pre \<le> length (takeWhile P l)"
    by (metis length_take min.cobounded1)
  have "l = takeWhile P l @ dropWhile P l" by simp
  then have "take (length pre) l = take (length pre) (takeWhile P l @ dropWhile P l)"
    by simp
  also have "\<dots> = take (length pre) (takeWhile P l)"
    using n by (simp del: takeWhile_dropWhile_id)
  finally show ?thesis
    using t by (simp add: HasPrefix_def)
qed

lemma HasPrefix_shorter:
  assumes "HasPrefix l (a @ b)"
  shows "HasPrefix l a"
proof -
  have "take (length a) (take (length (a @ b)) l) = take (length a) (a @ b)"
    using assms by (simp add: HasPrefix_def)
  then show ?thesis
    by (simp add: HasPrefix_def min_def)
qed

lemma plain_URL_http:
  assumes "plain_URL l"
  shows "HasPrefix l ''http''"
proof -
  let ?t = "takeWhile (\<lambda>c. c \<noteq> CHR ''?'') l"
  from assms have "plain_target ?t"
    by (simp add: plain_URL_def Cut_def)
  then have "HasPrefix ?t ''https://'' \<or> HasPrefix ?t ''http://''"
    by (auto simp: plain_target_def after_scheme_def split: option.splits if_splits)
  then have "HasPrefix l ''https://'' \<or> HasPrefix l ''http://''"
    by (auto dest: HasPrefix_takeWhile)
  then show ?thesis
    using HasPrefix_shorter [of l "''http''" "''s://''"] HasPrefix_shorter [of l "''http''" "''://''"]
    by auto
qed

lemma request_of_plain:
  assumes "plain_URL l"
  shows "request_of lib c l [] =
           Inr \<lparr>Target = locator_target l,
                Query = Values_Set (ParseQuery (locator_query l)) ''access_token'' (token c)\<rparr>"
proof -
  have t: "plain_target (locator_target l)"
    using assms by (simp add: plain_URL_def locator_target_def)
  have b: "buildURL lib l (baseParams c) [] =
             Inr \<lparr>Target = locator_target l,
                  Query = Values_Set (ParseQuery (locator_query l)) ''access_token'' (token c)\<rparr>"
    using assms plain_URL_http [OF assms]
    by (simp add: buildURL_def url_Parse_def baseParams_def Values_Set_def locator_target_def
        locator_query_def)
  show ?thesis
    by (simp add: request_of_def b NewRequest_def t)
qed

subsection \<open>The parameters that net/url reads\<close>







subsection \<open>The server with three pages\<close>

lemma length_ads [simp]: "length (ads a n) = n"
  by (simp add: ads_def)

lemma lower_letters [simp]:
  "lower (CHR ''a'') = CHR ''a''" "lower (CHR ''b'') = CHR ''b''" "lower (CHR ''c'') = CHR ''c''"
  "lower (CHR ''d'') = CHR ''d''" "lower (CHR ''e'') = CHR ''e''" "lower (CHR ''f'') = CHR ''f''"
  "lower (CHR ''g'') = CHR ''g''" "lower (CHR ''h'') = CHR ''h''" "lower (CHR ''i'') = CHR ''i''"
  "lower (CHR ''j'') = CHR ''j''" "lower (CHR ''k'') = CHR ''k''" "lower (CHR ''l'') = CHR ''l''"
  "lower (CHR ''m'') = CHR ''m''" "lower (CHR ''n'') = CHR ''n''" "lower (CHR ''o'') = CHR ''o''"
  "lower (CHR ''p'') = CHR ''p''" "lower (CHR ''q'') = CHR ''q''" "lower (CHR ''r'') = CHR ''r''"
  "lower (CHR ''s'') = CHR ''s''" "lower (CHR ''t'') = CHR ''t''" "lower (CHR ''u'') = CHR ''u''"
  "lower (CHR ''v'') = CHR ''v''" "lower (CHR ''w'') = CHR ''w''" "lower (CHR ''x'') = CHR ''x''"
  "lower (CHR ''y'') = CHR ''y''" "lower (CHR ''z'') = CHR ''z''" "lower (CHR ''_'') = CHR ''_''"
  by (simp_all add: lower_def)

lemma fold_name_examples [simp]:
  "fold_name ''data'' = ''data''" "fold_name ''paging'' = ''paging''" "fold_name ''next'' = ''next''"
  "fold_name ''error'' = ''error''" "fold_name ''message'' = ''message''"
  "fold_name ''type'' = ''type''" "fold_name ''code'' = ''code''"
  "fold_name ''access_token'' = ''access_token''"
  "fold_name ''token_expires_at'' = ''token_expires_at''"
  "fold_name ''token_type'' = ''token_type''" "fold_name ''expires_in'' = ''expires_in''"
  "fold_name ''id'' = ''id''" "fold_name ''name'' = ''name''"
  "fold_name ''call_count'' = ''call_count''" "fold_name ''total_cputime'' = ''total_cputime''"
  "fold_name ''total_time'' = ''total_time''"
  by simp_all

lemma page_of_page_response: "page_of (page_response d nx) = Some (decoded_page d nx)"
  by (simp add: page_of_def page_response_def page_body_def decoded_page_def error_payload_def
      json_payload_def unmarshal_errResp_def unmarshal_page_def errResp_field_def page_field_def
      Paging_field_def)

lemma next_locator_decoded [simp]: "next_locator (decoded_page d nx) = nx"
  by (simp add: next_locator_def decoded_page_def)

lemma Data_decoded [simp]: "Data (decoded_page d nx) = d"
  by (simp add: decoded_page_def)

lemma three_pages_decoded: "map page_of three_pages = map Some pages0"
  by (simp add: three_pages_def pages0_def page_of_page_response)

lemma plain_locators: "plain_URL locator1" "plain_URL locator2" "plain_URL locator3"
  by (simp_all add: locator1_def locator2_def locator3_def plain_URL_def plain_target_def
      after_scheme_def HasPrefix_def Cut_def plain_authority_def host_char_def path_char_def
      is_letter_def is_digit_def is_ctl_def)

lemma request_of_locators:
  "request_of lib client0 locator1 [] = Inr follow1"
  "request_of lib client0 locator2 [] = Inr follow2"
  "request_of lib client0 locator3 [] = Inr follow3"
  by (simp_all add: request_of_plain plain_locators)
     (simp_all add: locator1_def locator2_def locator3_def follow1_def follow2_def follow3_def
        locator_target_def locator_query_def Cut_def ParseQuery_def add_pair_def Values_Add_def
        Values_Set_def client0_def)

lemma locators_nonempty [simp]: "locator1 \<noteq> []" "locator2 \<noteq> []"
  by (simp_all add: locator1_def locator2_def)

lemma world0_params: "no_empty_slice (deref world0 0)"
  by (simp add: world0_def deref_def no_empty_slice_def)

lemma stops_pages0:
  "\<not> stops limit 0 pages0 (Suc 0) \<longleftrightarrow> \<not> (0 < limit \<and> limit \<le> 40)"
  "stops 0 0 pages0 3"
  "\<not> stops 0 0 pages0 2"
  "stops 50 0 pages0 2"
  by (simp_all add: stops_def limit_reached_def cursor_exhausted_def pages0_def)

lemma small_cases:
  "(\<forall>j. 0 < j \<and> j < (3::nat) \<longrightarrow> P j) \<longleftrightarrow> P (Suc 0) \<and> P 2"
  "(\<forall>j. 0 < j \<and> j < (2::nat) \<longrightarrow> P j) \<longleftrightarrow> P (Suc 0)"
proof -
  have a: "j = Suc 0 \<or> j = 2" if "0 < j \<and> j < (3::nat)" for j using that by arith
  show "(\<forall>j. 0 < j \<and> j < (3::nat) \<longrightarrow> P j) \<longleftrightarrow> P (Suc 0) \<and> P 2"
    using a by fastforce
  have b: "j = Suc 0" if "0 < j \<and> j < (2::nat)" for j using that by arith
  show "(\<forall>j. 0 < j \<and> j < (2::nat) \<longrightarrow> P j) \<longleftrightarrow> P (Suc 0)"
    using b by fastforce
qed




lemma locator3_nonempty [simp]: "locator3 \<noteq> []"
  by (simp add: locator3_def)



subsection \<open>Claims on the pagination\<close>

text \<open>
  C1. For every sequence of well-formed pages the server supplies, \<open>SearchAds\<close> appends the
  records of each page in the order of the server and goes on as long as neither condition
  holds: it stops after the first page \<open>k\<close> at which the limit is positive and reached, or
  at which the page has no paging descriptor or no locator of a next page. It returns the
  records of the first \<open>k\<close> pages, cut to exactly \<open>limit\<close> records when the limit is
  reached, and has sent exactly \<open>k\<close> requests. The pages are those of the responses the
  network gives, read as the program reads them; the locators that are followed are such
  that the libraries make a request of each. The witness is the server with three pages
  of forty records: with limit 0 the 120 records come back in order, with limit 50 the first
  50 records come back after two requests, and the third page is never asked for.
\<close>

theorem SearchAds_pages:
  assumes "transport w = map Responded rs @ rest"
      and "map page_of rs = map Some pgs"
      and "no_empty_slice (deref w params)"
      and "map (\<lambda>pg. request_of (libs w) c (next_locator pg) []) (take (k - 1) pgs) = map Inr reqs"
      and "0 < k" and "k \<le> length pgs"
      and "\<forall>j. 0 < j \<and> j < k \<longrightarrow> \<not> stops limit 0 pgs j"
      and "stops limit 0 pgs k"
  shows "\<exists>w'. SearchAds c params limit w =
                 Some (Inr (cutoff limit (concat (map Data (take k pgs)))), w') \<and>
               length (requests w') = length (requests w) + k \<and>
               transport w' = drop k (map Responded rs) @ rest \<and>
               (limit_reached limit 0 pgs k \<longrightarrow>
                  length (cutoff limit (concat (map Data (take k pgs)))) = nat limit)"
proof -
  from SearchAds_run [OF assms] obtain first w' where
    r: "SearchAds c params limit w = Some (Inr (cutoff limit (concat (map Data (take k pgs)))), w')"
       "requests w' = requests w @ first # reqs"
       "transport w' = drop k (map Responded rs) @ rest"
    by blast
  have "length reqs = length (take (k - 1) pgs)"
    using assms(4) by (metis length_map)
  then have n: "length (requests w') = length (requests w) + k"
    using r(2) assms(5,6) by simp
  have "limit_reached limit 0 pgs k \<longrightarrow>
          length (cutoff limit (concat (map Data (take k pgs)))) = nat limit"
    by (auto simp: limit_reached_def cutoff_def)
  with r(1,3) n show ?thesis by blast
qed

theorem SearchAds_pages_witness:
  "(\<exists>w'. SearchAds client0 0 0 world0 = Some (Inr (ads 0 40 @ ads 40 40 @ ads 80 40), w') \<and>
          length (requests w') = 3 \<and> transport w' = []) \<and>
   (\<exists>w'. SearchAds client0 0 50 world0 =
            Some (Inr (take 50 (ads 0 40 @ ads 40 40 @ ads 80 40)), w') \<and>
          length (requests w') = 2 \<and>
          transport w' = [Responded (page_response (ads 80 40) [])])"
proof
  have t: "transport world0 = map Responded three_pages @ []"
    by (simp add: world0_def)
  have u: "map (\<lambda>pg. request_of (libs world0) client0 (next_locator pg) []) (take (3 - 1) pages0) =
             map Inr [follow1, follow2]"
    by (simp add: pages0_def request_of_locators)
  have c: "\<forall>j. 0 < j \<and> j < (3::nat) \<longrightarrow> \<not> stops 0 0 pages0 j"
    by (simp add: small_cases stops_pages0)
  from SearchAds_pages [OF t three_pages_decoded world0_params u _ _ c stops_pages0(2)]
  show "\<exists>w'. SearchAds client0 0 0 world0 = Some (Inr (ads 0 40 @ ads 40 40 @ ads 80 40), w') \<and>
          length (requests w') = 3 \<and> transport w' = []"
    by (auto simp: pages0_def cutoff_def world0_def three_pages_def)
next
  have t: "transport world0 = map Responded three_pages @ []"
    by (simp add: world0_def)
  have u: "map (\<lambda>pg. request_of (libs world0) client0 (next_locator pg) []) (take (2 - 1) pages0) =
             map Inr [follow1]"
    by (simp add: pages0_def request_of_locators)
  have c: "\<forall>j. 0 < j \<and> j < (2::nat) \<longrightarrow> \<not> stops 50 0 pages0 j"
    by (simp add: small_cases stops_pages0)
  from SearchAds_pages [OF t three_pages_decoded world0_params u _ _ c stops_pages0(4)]
  show "\<exists>w'. SearchAds client0 0 50 world0 =
            Some (Inr (take 50 (ads 0 40 @ ads 40 40 @ ads 80 40)), w') \<and>
          length (requests w') = 2 \<and>
          transport w' = [Responded (page_response (ads 80 40) [])]"
    by (auto simp: pages0_def cutoff_def world0_def three_pages_def)
qed

lemma world0_run:
  "\<exists>w'. SearchAds client0 0 0 world0 = Some (Inr (ads 0 40 @ ads 40 40 @ ads 80 40), w') \<and>
     take (length (heap world0)) (heap w') = heap world0"
proof -
  have t: "transport world0 = map Responded three_pages @ []"
    by (simp add: world0_def)
  have u: "map (\<lambda>pg. request_of (libs world0) client0 (next_locator pg) []) (take (3 - 1) pages0) =
             map Inr [follow1, follow2]"
    by (simp add: pages0_def request_of_locators)
  have c: "\<forall>j. 0 < j \<and> j < (3::nat) \<longrightarrow> \<not> stops 0 0 pages0 j"
    by (simp add: small_cases stops_pages0)
  have k: "0 < (3::nat)" "3 \<le> length pages0" by (simp_all add: pages0_def)
  have d: "cutoff 0 (concat (map Data (take 3 pages0))) = ads 0 40 @ ads 40 40 @ ads 80 40"
    by (simp add: pages0_def cutoff_def)
  from SearchAds_run [OF t three_pages_decoded world0_params u k c stops_pages0(2)]
  show ?thesis
    unfolding d by auto
qed





text \<open>
  C9. When a page request fails (no response, a body that cannot be read, an error payload,
  a status of 400 or more, a body that is not a page) after any number of pages that made
  the loop go on, \<open>SearchAds\<close> returns the error of that request and no record. The failed
  request is the last one sent, and the outcomes the network still holds are left alone:
  nothing is tried again. The pages before the failure are read as the program reads them,
  and their locators are such that the libraries make a request of each.
\<close>

theorem SearchAds_abort:
  assumes "transport w = map Responded rs @ bad # rest"
      and "map page_of rs = map Some pgs"
      and "no_empty_slice (deref w params)"
      and "map (\<lambda>pg. request_of (libs w) c (next_locator pg) []) pgs = map Inr reqs"
      and "\<forall>j. 0 < j \<and> j \<le> length pgs \<longrightarrow> \<not> stops limit 0 pgs j"
      and "failure_of bad = Some e"
  shows "\<exists>w'. SearchAds c params limit w = Some (Inl e, w') \<and>
           length (requests w') = length (requests w) + length pgs + 1 \<and>
           transport w' = rest"
proof -
  let ?w = "w\<lparr>heap := heap w @ [working_params (deref w params)]\<rparr>"
  from request_first [OF no_empty_working [OF assms(3)]] obtain first where
    f: "request_of (libs w) c adLibPath (working_params (deref w params)) = Inr first"
    by blast
  have d: "deref ?w (length (heap w)) = working_params (deref w params)"
    by (simp add: deref_def)
  have "\<exists>w'. SearchAds_loop c limit adLibPath (length (heap w)) [] ?w = Some (Inl e, w') \<and>
               requests w' = requests ?w @ first # reqs \<and>
               transport w' = rest \<and>
               take (length (heap ?w)) (heap w') = heap ?w"
    by (rule loop_abort [where rs = rs and pgs = pgs and lib = "libs w"])
       (use assms f in \<open>simp_all add: d\<close>)
  then obtain w' where w': "SearchAds_loop c limit adLibPath (length (heap w)) [] ?w = Some (Inl e, w')"
               "requests w' = requests w @ first # reqs"
               "transport w' = rest"
    by auto
  have "length reqs = length pgs"
    using assms(4) by (metis length_map)
  with w' show ?thesis by (simp add: SearchAds_eq)
qed

theorem SearchAds_abort_witness:
  "\<exists>w'. SearchAds client0 0 0 world1 =
           Some (Inl (ApiError \<lparr>Code = 1, Message = ''An unknown error occurred'',
                               Type = ''OAuthException'', Subcode = 0\<rparr>), w') \<and>
         length (requests w') = 2 \<and>
         transport w' = [Responded (page_response (ads 80 40) [])]"
proof -
  have t: "transport world1 =
             map Responded [page_response (ads 0 40) locator1] @
             Responded error_response # [Responded (page_response (ads 80 40) [])]"
    by (simp add: world1_def world0_def)
  have p: "map page_of [page_response (ads 0 40) locator1] = map Some [decoded_page (ads 0 40) locator1]"
    by (simp add: page_of_page_response)
  have n: "no_empty_slice (deref world1 0)"
    by (simp add: world1_def world0_def deref_def no_empty_slice_def)
  have u: "map (\<lambda>pg. request_of (libs world1) client0 (next_locator pg) [])
             [decoded_page (ads 0 40) locator1] = map Inr [follow1]"
    by (simp add: request_of_locators)
  have c: "\<forall>j. 0 < j \<and> j \<le> length [decoded_page (ads 0 40) locator1] \<longrightarrow>
             \<not> stops 0 0 [decoded_page (ads 0 40) locator1] j"
    by (auto simp: stops_def limit_reached_def cursor_exhausted_def)
  have f: "failure_of (Responded error_response) =
             Some (ApiError \<lparr>Code = 1, Message = ''An unknown error occurred'',
                             Type = ''OAuthException'', Subcode = 0\<rparr>)"
    by (simp add: failure_of_def error_response_def json_payload_def error_payload_def
        unmarshal_errResp_def errResp_field_def unmarshal_MetaError_def MetaError_field_def
        zero_MetaError_def fits_int64_def)
  have r: "requests world1 = []" by (simp add: world1_def world0_def)
  from SearchAds_abort [OF t p n u c f]
  show ?thesis
    unfolding r by (simp add: numeral_2_eq_2)
qed

text \<open>
  C10. \<open>SearchAds\<close> never changes the map its caller passes: whatever the parameters, the
  limit and the answers of the network, the map at the caller's address, and every other
  map that existed before the call, is after the call what it was before. The default
  batch size is written to a map that \<open>SearchAds\<close> creates, and a continuation works on
  another new map.
\<close>

theorem SearchAds_keeps_params:
  assumes "params < length (heap w)" and "SearchAds c params limit w = Some (res, w')"
  shows "deref w' params = deref w params \<and> take (length (heap w)) (heap w') = heap w"
proof -
  have t: "take (length (heap w)) (heap w') = heap w"
    by (rule SearchAds_frame [OF assms(2)])
  have "length (take (length (heap w)) (heap w')) = length (heap w)"
    by (simp only: t)
  then have l: "length (heap w) \<le> length (heap w')"
    by simp
  have "heap w' ! params = take (length (heap w)) (heap w') ! params"
    using assms(1) by simp
  then have "heap w' ! params = heap w ! params"
    by (simp add: t)
  with assms(1) l t show ?thesis
    by (simp add: deref_def)
qed

theorem SearchAds_keeps_params_witness:
  "\<exists>res w'. SearchAds client0 0 0 world0 = Some (res, w') \<and>
     deref w' 0 = [(''search_terms'', [''shoes''])] \<and>
     Values_Get (working_params (deref world0 0)) ''limit'' = ''100''"
proof -
  from world0_run obtain w' where
    r: "SearchAds client0 0 0 world0 = Some (Inr (ads 0 40 @ ads 40 40 @ ads 80 40), w')"
    by blast
  have p: "0 < length (heap world0)" by (simp add: world0_def)
  have "deref w' 0 = deref world0 0"
    using SearchAds_keeps_params [OF p r] by simp
  moreover have "deref world0 0 = [(''search_terms'', [''shoes''])]"
    by (simp add: world0_def deref_def)
  moreover have "Values_Get (working_params (deref world0 0)) ''limit'' = ''100''"
    by (simp add: world0_def deref_def working_params_def Values_Get_def Values_Set_def)
  ultimately show ?thesis using r by simp
qed

section \<open>One response\<close>

lemma decode_members_named:
  "decode_members errResp_field ms p = decode_members errResp_field (named ''error'' ms) p"
  by (induction ms arbitrary: p) (simp_all add: named_def errResp_field_def split: option.splits)

lemma named_single:
  assumes "named name ms = [(k, v)]"
  shows "fold_name k = name"
proof -
  have "(k, v) \<in> set (named name ms)"
    by (simp add: assms)
  then show ?thesis
    by (simp add: named_def)
qed

lemma error_payload_single:
  assumes "doc b = Some (JObj ms)" and "named ''error'' ms = [(k, JObj es)]"
      and "unmarshal_MetaError es zero_MetaError = Some e"
  shows "unmarshal_errResp b = Some (Some e)"
proof -
  have "unmarshal_errResp b = decode_members errResp_field [(k, JObj es)] None"
    using assms(1,2) by (simp add: unmarshal_errResp_def decode_members_named [of ms])
  then show ?thesis
    using named_single [OF assms(2)] assms(3) by (simp add: errResp_field_def)
qed

text \<open>
  C2, as the code has it. For every response that \<open>doRequest\<close> reads, an error object in
  the body whose members have the types of the error envelope (integers for the code and
  the subcode, strings for the message and the type) is returned as the error whatever the
  HTTP status is, status 200 included. Only when the body holds no such payload is a
  status of 400 or more an error, with the status code and the raw body in its message.
  Only when neither holds is the body returned. The error object is the member of the body
  that goes to the field \<^verbatim>\<open>error\<close>; the payload of a body in general is what Unmarshal
  stores there without an error.
\<close>

theorem doRequest_precedence:
  assumes "transport w = Responded resp # rest" and "Body resp = Inr body"
  shows "(\<forall>ms k es e. doc body = Some (JObj ms) \<and> named ''error'' ms = [(k, JObj es)] \<and>
            unmarshal_MetaError es zero_MetaError = Some e \<longrightarrow>
            doRequest req w = Some (Inl (ApiError e), answered req resp w)) \<and>
         (\<forall>e. error_payload body = Some e \<longrightarrow>
            doRequest req w = Some (Inl (ApiError e), answered req resp w)) \<and>
         (error_payload body = None \<and> StatusCode resp \<ge> 400 \<longrightarrow>
            doRequest req w =
              Some (Inl (Errorf (''HTTP '' @ fmt_d (StatusCode resp) @ '': '' @ raw body)),
                    answered req resp w)) \<and>
         (error_payload body = None \<and> StatusCode resp < 400 \<longrightarrow>
            doRequest req w = Some (Inr body, answered req resp w))"
proof (intro conjI allI impI)
  fix ms k es e
  assume "doc body = Some (JObj ms) \<and> named ''error'' ms = [(k, JObj es)] \<and>
            unmarshal_MetaError es zero_MetaError = Some e"
  then have "unmarshal_errResp body = Some (Some e)"
    by (auto intro: error_payload_single)
  then show "doRequest req w = Some (Inl (ApiError e), answered req resp w)"
    using assms by (simp add: doRequest_def Do_def answered_def sent_def)
next
  fix e
  assume "error_payload body = Some e"
  then have "unmarshal_errResp body = Some (Some e)"
    by (auto simp: error_payload_def split: option.splits)
  then show "doRequest req w = Some (Inl (ApiError e), answered req resp w)"
    using assms by (simp add: doRequest_def Do_def answered_def sent_def)
next
  assume a: "error_payload body = None \<and> StatusCode resp \<ge> 400"
  then show "doRequest req w =
              Some (Inl (Errorf (''HTTP '' @ fmt_d (StatusCode resp) @ '': '' @ raw body)),
                    answered req resp w)"
    using assms
    by (auto simp: doRequest_def Do_def answered_def sent_def error_payload_def split: option.splits)
next
  assume a: "error_payload body = None \<and> StatusCode resp < 400"
  then show "doRequest req w = Some (Inr body, answered req resp w)"
    using assms
    by (auto simp: doRequest_def Do_def answered_def sent_def error_payload_def split: option.splits)
qed

lemma serving_transport: "transport (serving outs) = outs"
  by (simp add: serving_def)

theorem doRequest_precedence_witness:
  "doRequest request0 (serving [Responded error_200]) =
     Some (Inl (ApiError \<lparr>Code = 190, Message = ''Invalid OAuth access token.'',
                         Type = ''OAuthException'', Subcode = 0\<rparr>),
           answered request0 error_200 (serving [Responded error_200])) \<and>
   doRequest request0 (serving [Responded not_found]) =
     Some (Inl (Errorf ''HTTP 404: Not Found''),
           answered request0 not_found (serving [Responded not_found])) \<and>
   doRequest request0 (serving [Responded (page_response (ads 80 40) [])]) =
     Some (Inr (json_payload (JObj [(''data'', JArr (ads 80 40))])),
           answered request0 (page_response (ads 80 40) [])
             (serving [Responded (page_response (ads 80 40) [])]))"
proof (intro conjI)
  have b: "Body error_200 = Inr (json_payload (JObj [(''error'',
               JObj [(''message'', JStr ''Invalid OAuth access token.''),
                     (''type'', JStr ''OAuthException''), (''code'', JNum 190)])]))"
    by (simp add: error_200_def)
  have m: "unmarshal_MetaError [(''message'', JStr ''Invalid OAuth access token.''),
                     (''type'', JStr ''OAuthException''), (''code'', JNum 190)] zero_MetaError =
           Some \<lparr>Code = 190, Message = ''Invalid OAuth access token.'',
                 Type = ''OAuthException'', Subcode = 0\<rparr>"
    by (simp add: unmarshal_MetaError_def MetaError_field_def zero_MetaError_def fits_int64_def)
  have n: "named ''error'' [(''error'',
               JObj [(''message'', JStr ''Invalid OAuth access token.''),
                     (''type'', JStr ''OAuthException''), (''code'', JNum 190)])] =
           [(''error'',
               JObj [(''message'', JStr ''Invalid OAuth access token.''),
                     (''type'', JStr ''OAuthException''), (''code'', JNum 190)])]"
    by (simp add: named_def)
  from doRequest_precedence [OF serving_transport [of "[Responded error_200]"] b, of request0]
  show "doRequest request0 (serving [Responded error_200]) =
     Some (Inl (ApiError \<lparr>Code = 190, Message = ''Invalid OAuth access token.'',
                         Type = ''OAuthException'', Subcode = 0\<rparr>),
           answered request0 error_200 (serving [Responded error_200]))"
    by (simp add: json_payload_def m n)
next
  have b: "Body not_found = Inr \<lparr>raw = ''Not Found'', doc = None\<rparr>"
    by (simp add: not_found_def)
  have e: "error_payload \<lparr>raw = ''Not Found'', doc = None\<rparr> = None"
    by (simp add: error_payload_def unmarshal_errResp_def)
  have s: "StatusCode not_found = 404" by (simp add: not_found_def)
  have f: "fmt_d 404 = ''404''" by (simp add: fmt_d_def digits_of.simps digit_def)
  from doRequest_precedence [OF serving_transport [of "[Responded not_found]"] b, of request0]
  show "doRequest request0 (serving [Responded not_found]) =
     Some (Inl (Errorf ''HTTP 404: Not Found''),
           answered request0 not_found (serving [Responded not_found]))"
    by (simp add: e s f)
next
  let ?r = "page_response (ads 80 40) []"
  have b: "Body ?r = Inr (json_payload (JObj [(''data'', JArr (ads 80 40))]))"
    by (simp add: page_response_def page_body_def)
  have e: "error_payload (json_payload (JObj [(''data'', JArr (ads 80 40))])) = None"
    by (simp add: error_payload_def unmarshal_errResp_def json_payload_def errResp_field_def)
  have s: "StatusCode ?r = 200" by (simp add: page_response_def)
  from doRequest_precedence [OF serving_transport [of "[Responded ?r]"] b, of request0]
  show "doRequest request0 (serving [Responded ?r]) =
     Some (Inr (json_payload (JObj [(''data'', JArr (ads 80 40))])),
           answered request0 ?r (serving [Responded ?r]))"
    by (simp add: e s)
qed

text \<open>
  The claim as it is written fails on a body whose error object is not empty but gives the
  code as a string: Unmarshal returns an error, the object is passed over, and under
  status 200 the body is returned as a success.
\<close>

theorem doRequest_error_object_counterexample:
  "doc mistyped_error =
     Some (JObj [(''error'',
       JObj [(''message'', JStr ''Invalid OAuth access token.''), (''code'', JStr ''190'')])]) \<and>
   StatusCode mistyped_200 = 200 \<and> Body mistyped_200 = Inr mistyped_error \<and>
   doRequest request0 (serving [Responded mistyped_200]) =
     Some (Inr mistyped_error, answered request0 mistyped_200 (serving [Responded mistyped_200]))"
  by (simp add: mistyped_error_def mistyped_200_def json_payload_def doRequest_def Do_def
      serving_def answered_def sent_def unmarshal_errResp_def errResp_field_def
      unmarshal_MetaError_def MetaError_field_def zero_MetaError_def)

section \<open>The usage header\<close>

lemma checkRateLimit_warns:
  assumes "raw usage \<noteq> []" and "unmarshal_usage usage = Some parsed"
  shows "checkRateLimit usage w =
     (if max (CallCount parsed) (TotalTime parsed) > 75
      then w\<lparr>stderr := stderr w @ [rate_warning (max (CallCount parsed) (TotalTime parsed))]\<rparr>
      else w)"
  using assms by (auto simp: checkRateLimit_def Let_def max_def)

text \<open>
  C6. The claim takes the usage figure to be the greatest of the three sub-metrics of the
  header. \<open>checkRateLimit\<close> decodes the three of them and leaves the CPU time out of the
  maximum: on a header that reports a call count of 10, a CPU time of 90 and a total time
  of 20, it writes no warning.
\<close>

theorem checkRateLimit_leaves_out_cputime:
  \<open>checkRateLimit
     \<lparr>raw = ''{"call_count":10,"total_cputime":90,"total_time":20}'',
      doc = Some (JObj [(''call_count'', JNum 10), (''total_cputime'', JNum 90),
                        (''total_time'', JNum 20)])\<rparr> w = w\<close>
  by (simp add: checkRateLimit_def unmarshal_usage_def usage_field_def fits_int64_def)

lemma checkRateLimit_examples:
  \<open>checkRateLimit
     \<lparr>raw = ''{"call_count": 80, "total_time": 40}'',
      doc = Some (JObj [(''call_count'', JNum 80), (''total_time'', JNum 40)])\<rparr> w =
   w\<lparr>stderr := stderr w @ [rate_warning 80]\<rparr>\<close>
  \<open>checkRateLimit
     \<lparr>raw = ''{"call_count": 10, "total_time": 20}'',
      doc = Some (JObj [(''call_count'', JNum 10), (''total_time'', JNum 20)])\<rparr> w = w\<close>
  by (simp_all add: checkRateLimit_def unmarshal_usage_def usage_field_def fits_int64_def)

section \<open>The search command\<close>

text \<open>
  What \<open>toJSONArray\<close> writes is read back as it was, for every list of strings made of
  bytes that \<open>Quote\<close> writes the way JSON does.
\<close>

lemma char_eq_iff_nat: "c = d \<longleftrightarrow> (of_char c :: nat) = of_char d"
  by (metis char_of_char)

lemma scan_quote_byte:
  assumes "json_safe c"
  shows "scan InString acc cur (quote_byte c @ rest) = scan InString acc (cur @ [c]) rest"
proof -
  consider "c = CHR 0x22" | "c = CHR 0x5C" | "c = CHR 0x08" | "c = CHR 0x09" | "c = CHR 0x0A"
    | "c = CHR 0x0C" | "c = CHR 0x0D"
    | "32 \<le> (of_char c :: nat)" "(of_char c :: nat) < 127" "c \<noteq> CHR 0x22" "c \<noteq> CHR 0x5C"
    using assms unfolding json_safe_def by blast
  then show ?thesis
  proof cases
    case 8
    then have "(of_char c :: nat) \<noteq> 0x22" "(of_char c :: nat) \<noteq> 0x5C"
      by (auto simp: char_eq_iff_nat [of c])
    with 8 show ?thesis
      by (auto simp: quote_byte_def Let_def)
  qed (simp_all add: quote_byte_def json_escape_def)
qed

lemma scan_string:
  "list_all json_safe s \<Longrightarrow>
     scan InString acc cur (concat (map quote_byte s) @ CHR 0x22 # rest) =
       scan AfterString (acc @ [cur @ s]) [] rest"
  by (induction s arbitrary: cur) (simp_all add: scan_quote_byte)

lemma scan_Quote:
  "list_all json_safe s \<Longrightarrow>
     scan InString acc [] (tl (Quote s) @ rest) = scan AfterString (acc @ [s]) [] rest"
  using scan_string [of s acc "[]" rest] by (simp add: Quote_def)

lemma Quote_Cons: "Quote s = CHR 0x22 # tl (Quote s)"
  by (simp add: Quote_def)

lemma scan_rest:
  "list_all (list_all json_safe) ss \<Longrightarrow>
     scan AfterString acc [] ((if ss = [] then [] else '','' @ Join (map Quote ss) '','') @ '']'') =
       Some (acc @ ss)"
proof (induction ss arbitrary: acc)
  case Nil
  then show ?case by (simp add: is_ws_def)
next
  case (Cons s ss)
  then have s: "list_all json_safe s" and ss: "list_all (list_all json_safe) ss" by simp_all
  have "scan AfterString acc [] ('','' @ Join (map Quote (s # ss)) '','' @ '']'') =
          scan NeedString acc [] (Quote s @ ((if ss = [] then [] else '','' @ Join (map Quote ss) '','') @ '']''))"
    by (cases ss) (simp_all add: is_ws_def)
  also have "\<dots> = scan InString acc [] (tl (Quote s) @ ((if ss = [] then [] else '','' @ Join (map Quote ss) '','') @ '']''))"
    by (subst Quote_Cons) (simp add: is_ws_def)
  also have "\<dots> = scan AfterString (acc @ [s]) [] ((if ss = [] then [] else '','' @ Join (map Quote ss) '','') @ '']'')"
    by (rule scan_Quote [OF s])
  also have "\<dots> = Some ((acc @ [s]) @ ss)"
    by (rule Cons.IH [OF ss])
  finally show ?case by simp
qed

lemma toJSONArray_decodes:
  assumes "list_all (list_all json_safe) ss"
  shows "decode_string_array (toJSONArray ss) = Some ss"
proof (cases ss)
  case Nil
  then show ?thesis
    by (simp add: decode_string_array_def toJSONArray_def is_ws_def)
next
  case (Cons s ss')
  with assms have s: "list_all json_safe s" and ss: "list_all (list_all json_safe) ss'" by simp_all
  have "decode_string_array (toJSONArray ss) =
          scan Opened [] [] (Quote s @ ((if ss' = [] then [] else '','' @ Join (map Quote ss') '','') @ '']''))"
    by (cases ss') (simp_all add: decode_string_array_def toJSONArray_def Cons is_ws_def)
  also have "\<dots> = scan InString [] [] (tl (Quote s) @ ((if ss' = [] then [] else '','' @ Join (map Quote ss') '','') @ '']''))"
    by (subst Quote_Cons) (simp add: is_ws_def)
  also have "\<dots> = scan AfterString ([] @ [s]) [] ((if ss' = [] then [] else '','' @ Join (map Quote ss') '','') @ '']'')"
    by (rule scan_Quote [OF s])
  also have "\<dots> = Some (([] @ [s]) @ ss')"
    by (rule scan_rest [OF ss])
  finally show ?thesis by (simp add: Cons)
qed

text \<open>
  C7. The country set US, DE is encoded as the text \<^verbatim>\<open>["US","DE"]\<close>: each element in
  quotes, a comma between them, brackets around, no white space. Reading that text as a
  JSON array of strings gives US, DE back, in this order.
\<close>

theorem toJSONArray_round_trip:
  \<open>toJSONArray [''US'', ''DE''] = ''["US","DE"]'' \<and>
   decode_string_array (toJSONArray [''US'', ''DE'']) = Some [''US'', ''DE'']\<close>
proof -
  have t: \<open>toJSONArray [''US'', ''DE''] = ''["US","DE"]''\<close>
    by (simp add: toJSONArray_def Quote_def quote_byte_def)
  have \<open>decode_string_array ''["US","DE"]'' = Some [''US'', ''DE'']\<close>
    by (simp add: decode_string_array_def is_ws_def)
  with t show ?thesis by simp
qed

text \<open>
  C5. \<open>runSearch\<close> checks the country set first and the disjunction of text and page
  identifiers second. With no country the command fails with the error on the country,
  whatever the other filters are; with a country but neither search terms nor page
  identifiers it fails with the error on the disjunction. In both cases the world is left
  as it was: no request has been sent.
\<close>

theorem runSearch_validation:
  "(searchCountries f = [] \<longrightarrow>
      runSearch c f w =
        Some (Inl (Errorf ''at least one --country is required (e.g. --country US)''), w)) \<and>
   (searchCountries f \<noteq> [] \<and> searchQuery f = [] \<and> searchPageIDs f = [] \<longrightarrow>
      runSearch c f w =
        Some (Inl (Errorf ''at least one of --query or --page-id is required''), w))"
  by (simp add: runSearch_def)

theorem runSearch_validation_witness:
  "runSearch client0 (flags0\<lparr>searchCountries := [], searchQuery := []\<rparr>) world0 =
     Some (Inl (Errorf ''at least one --country is required (e.g. --country US)''), world0) \<and>
   runSearch client0 (flags0\<lparr>searchQuery := []\<rparr>) world0 =
     Some (Inl (Errorf ''at least one of --query or --page-id is required''), world0) \<and>
   requests world0 = []"
  using runSearch_validation [of "flags0\<lparr>searchCountries := [], searchQuery := []\<rparr>" client0 world0]
        runSearch_validation [of "flags0\<lparr>searchQuery := []\<rparr>" client0 world0]
  by (simp add: flags0_def world0_def)

section \<open>Credentials\<close>

text \<open>
  C4, as the code has it. \<open>resolveToken\<close> follows the chain, the first token that is not
  empty wins: the token of the environment is returned at once and nothing is written;
  otherwise, when the local store loads, its token is returned; otherwise, when the shared
  store can be read, its token is returned. For a token of a store one line goes to the
  diagnostic stream when the token has expired, or else when it expires within seven days,
  and none otherwise; the token is returned all the same, and nothing else of the world
  changes. When the environment, the local store and the shared store have all been read
  and none holds a token, resolution fails with the error that names both remedies. A store
  that cannot be read ends the resolution with its own error.
\<close>

theorem resolveToken_chain:
  "(META_TOKEN env \<noteq> [] \<longrightarrow> resolveToken env w = (Inr (META_TOKEN env), w)) \<and>
   (META_TOKEN env = [] \<and> own_config env = Inr cfg \<and> AccessToken cfg \<noteq> [] \<longrightarrow>
      resolveToken env w =
        (Inr (AccessToken cfg),
         w\<lparr>stderr := stderr w @
           (if IsExpired env cfg
            then [''warning: token has expired '' @ em_dash @ '' run: meta-adlib auth refresh'' @
                    [CHR 0x0A]]
            else if 0 \<le> DaysUntilExpiry env cfg \<and> DaysUntilExpiry env cfg \<le> 7
            then [''warning: token expires in '' @ fmt_d (DaysUntilExpiry env cfg) @ '' day(s) '' @
                    em_dash @ '' run: meta-adlib auth refresh'' @ [CHR 0x0A]]
            else [])\<rparr>)) \<and>
   (META_TOKEN env = [] \<and> own_config env = Inr cfg \<and> AccessToken cfg = [] \<and>
    metaauth_Token (shared_file env) = Inr shared \<and> shared \<noteq> [] \<longrightarrow>
      resolveToken env w =
        (Inr shared,
         w\<lparr>stderr := stderr w @
           (if metaauth_IsExpired (shared_file env) (now_ns env)
            then [''warning: meta-auth token has expired '' @ em_dash @ '' run: meta-auth refresh'' @
                    [CHR 0x0A]]
            else if 0 \<le> metaauth_DaysUntilExpiry (shared_file env) (now_ns env) \<and>
                    metaauth_DaysUntilExpiry (shared_file env) (now_ns env) \<le> 7
            then [''warning: meta-auth token expires in '' @
                    fmt_d (metaauth_DaysUntilExpiry (shared_file env) (now_ns env)) @ '' day(s) '' @
                    em_dash @ '' run: meta-auth refresh'' @ [CHR 0x0A]]
            else [])\<rparr>)) \<and>
   (META_TOKEN env = [] \<and> own_config env = Inr cfg \<and> AccessToken cfg = [] \<and>
    metaauth_Token (shared_file env) = Inr [] \<longrightarrow>
      resolveToken env w =
        (Inl (Errorf (''not authenticated '' @ em_dash @ '' run: meta-auth login  (shared)'' @
                      [CHR 0x0A] @ ''or: meta-adlib auth set-token <token>  (local only)'')), w)) \<and>
   (META_TOKEN env = [] \<and> own_config env = Inl err \<longrightarrow>
      resolveToken env w = (Inl (Wrap ''failed to load config: '' err), w)) \<and>
   (META_TOKEN env = [] \<and> own_config env = Inr cfg \<and> AccessToken cfg = [] \<and>
    metaauth_Token (shared_file env) = Inl err \<longrightarrow>
      resolveToken env w = (Inl (Wrap ''failed to read meta-auth config: '' err), w))"
proof (intro conjI impI)
  assume "META_TOKEN env \<noteq> []"
  then show "resolveToken env w = (Inr (META_TOKEN env), w)"
    by (simp add: resolveToken_def)
next
  assume a: "META_TOKEN env = [] \<and> own_config env = Inr cfg \<and> AccessToken cfg \<noteq> []"
  then have "resolveToken env w = (Inr (AccessToken cfg), warnOwnExpiry env (Some cfg) w)"
    by (simp add: resolveToken_def)
  then show "resolveToken env w =
        (Inr (AccessToken cfg),
         w\<lparr>stderr := stderr w @
           (if IsExpired env cfg
            then [''warning: token has expired '' @ em_dash @ '' run: meta-adlib auth refresh'' @
                    [CHR 0x0A]]
            else if 0 \<le> DaysUntilExpiry env cfg \<and> DaysUntilExpiry env cfg \<le> 7
            then [''warning: token expires in '' @ fmt_d (DaysUntilExpiry env cfg) @ '' day(s) '' @
                    em_dash @ '' run: meta-adlib auth refresh'' @ [CHR 0x0A]]
            else [])\<rparr>)"
    by (simp add: warnOwnExpiry_def Let_def)
next
  assume a: "META_TOKEN env = [] \<and> own_config env = Inr cfg \<and> AccessToken cfg = [] \<and>
    metaauth_Token (shared_file env) = Inr shared \<and> shared \<noteq> []"
  then have "resolveToken env w = (Inr shared, warnSharedExpiry env w)"
    by (simp add: resolveToken_def)
  then show "resolveToken env w =
        (Inr shared,
         w\<lparr>stderr := stderr w @
           (if metaauth_IsExpired (shared_file env) (now_ns env)
            then [''warning: meta-auth token has expired '' @ em_dash @ '' run: meta-auth refresh'' @
                    [CHR 0x0A]]
            else if 0 \<le> metaauth_DaysUntilExpiry (shared_file env) (now_ns env) \<and>
                    metaauth_DaysUntilExpiry (shared_file env) (now_ns env) \<le> 7
            then [''warning: meta-auth token expires in '' @
                    fmt_d (metaauth_DaysUntilExpiry (shared_file env) (now_ns env)) @ '' day(s) '' @
                    em_dash @ '' run: meta-auth refresh'' @ [CHR 0x0A]]
            else [])\<rparr>)"
    by (simp add: warnSharedExpiry_def Let_def)
next
  assume "META_TOKEN env = [] \<and> own_config env = Inr cfg \<and> AccessToken cfg = [] \<and>
    metaauth_Token (shared_file env) = Inr []"
  then show "resolveToken env w =
        (Inl (Errorf (''not authenticated '' @ em_dash @ '' run: meta-auth login  (shared)'' @
                      [CHR 0x0A] @ ''or: meta-adlib auth set-token <token>  (local only)'')), w)"
    by (simp add: resolveToken_def not_authenticated_def)
next
  assume "META_TOKEN env = [] \<and> own_config env = Inl err"
  then show "resolveToken env w = (Inl (Wrap ''failed to load config: '' err), w)"
    by (simp add: resolveToken_def)
next
  assume "META_TOKEN env = [] \<and> own_config env = Inr cfg \<and> AccessToken cfg = [] \<and>
    metaauth_Token (shared_file env) = Inl err"
  then show "resolveToken env w = (Inl (Wrap ''failed to read meta-auth config: '' err), w)"
    by (simp add: resolveToken_def)
qed

theorem resolveToken_chain_witness:
  "resolveToken (env0\<lparr>META_TOKEN := ''ENVTOK'', own_config := Inr own_3_days\<rparr>) world0 =
     (Inr ''ENVTOK'', world0) \<and>
   resolveToken (env0\<lparr>own_config := Inr own_3_days, shared_file := shared_expired\<rparr>) world0 =
     (Inr ''OWN'',
      world0\<lparr>stderr := [''warning: token expires in 3 day(s) '' @ em_dash @
                           '' run: meta-adlib auth refresh'' @ [CHR 0x0A]]\<rparr>) \<and>
   resolveToken (env0\<lparr>shared_file := shared_expired\<rparr>) world0 =
     (Inr ''SHARED'',
      world0\<lparr>stderr := [''warning: meta-auth token has expired '' @ em_dash @
                           '' run: meta-auth refresh'' @ [CHR 0x0A]]\<rparr>) \<and>
   resolveToken env0 world0 =
     (Inl (Errorf (''not authenticated '' @ em_dash @ '' run: meta-auth login  (shared)'' @
                   [CHR 0x0A] @ ''or: meta-adlib auth set-token <token>  (local only)'')), world0) \<and>
   resolveToken (env0\<lparr>own_config := Inl (Lib ''unexpected end of JSON input'')\<rparr>) world0 =
     (Inl (Wrap ''failed to load config: '' (Lib ''unexpected end of JSON input'')), world0) \<and>
   resolveToken (env0\<lparr>shared_file := ReadError ''permission denied''\<rparr>) world0 =
     (Inl (Wrap ''failed to read meta-auth config: '' (Lib ''permission denied'')), world0)"
proof (intro conjI)
  let ?e = "env0\<lparr>META_TOKEN := ''ENVTOK'', own_config := Inr own_3_days\<rparr>"
  from resolveToken_chain [of ?e world0]
  show "resolveToken ?e world0 = (Inr ''ENVTOK'', world0)"
    by (simp add: env0_def)
next
  let ?e = "env0\<lparr>own_config := Inr own_3_days, shared_file := shared_expired\<rparr>"
  have d: "DaysUntilExpiry ?e own_3_days = 3" "\<not> IsExpired ?e own_3_days"
    by (simp_all add: env0_def own_3_days_def example_DaysUntilExpiry_def example_IsExpired_def
        now0_def second_def time_Until_def Time_Sub_def Time_After_def time_Unix_def time_Now_def
        int64_def unixToInternal_def maxDuration_def minDuration_def)
  have h: "META_TOKEN ?e = [] \<and> own_config ?e = Inr own_3_days \<and> AccessToken own_3_days \<noteq> []"
    by (simp add: env0_def own_3_days_def)
  have f: "fmt_d 3 = ''3''"
    by (simp add: fmt_d_def digits_of.simps digit_def)
  have s: "stderr world0 = []" "AccessToken own_3_days = ''OWN''"
    by (simp_all add: world0_def own_3_days_def)
  from resolveToken_chain [of ?e world0 own_3_days] h
  have "resolveToken ?e world0 =
        (Inr (AccessToken own_3_days),
         world0\<lparr>stderr := stderr world0 @
           (if IsExpired ?e own_3_days
            then [''warning: token has expired '' @ em_dash @ '' run: meta-adlib auth refresh'' @
                    [CHR 0x0A]]
            else if 0 \<le> DaysUntilExpiry ?e own_3_days \<and> DaysUntilExpiry ?e own_3_days \<le> 7
            then [''warning: token expires in '' @ fmt_d (DaysUntilExpiry ?e own_3_days) @
                    '' day(s) '' @ em_dash @ '' run: meta-adlib auth refresh'' @ [CHR 0x0A]]
            else [])\<rparr>)"
    by blast
  moreover have r: "(0::int) \<le> 3 \<and> (3::int) \<le> 7"
    by simp
  ultimately have "resolveToken ?e world0 =
        (Inr ''OWN'',
         world0\<lparr>stderr := [] @
           [''warning: token expires in '' @ ''3'' @
              '' day(s) '' @ em_dash @ '' run: meta-adlib auth refresh'' @ [CHR 0x0A]]\<rparr>)"
    by (simp only: d f s if_False if_True simp_thms)
  then show "resolveToken ?e world0 =
     (Inr ''OWN'',
      world0\<lparr>stderr := [''warning: token expires in 3 day(s) '' @ em_dash @
                           '' run: meta-adlib auth refresh'' @ [CHR 0x0A]]\<rparr>)"
    by simp
next
  let ?e = "env0\<lparr>shared_file := shared_expired\<rparr>"
  have u: "unmarshal_sharedConfig (json_payload (JObj [(''access_token'', JStr ''SHARED''),
                                   (''token_expires_at'', JNum 1699990000)])) =
           Some \<lparr>shared_AccessToken = ''SHARED'', shared_UserName = [],
                 shared_TokenExpiresAt = 1699990000\<rparr>"
    by (simp add: unmarshal_sharedConfig_def sharedConfig_field_def json_payload_def fits_int64_def)
  have t: "metaauth_Token (shared_file ?e) = Inr ''SHARED''"
    by (simp add: env0_def shared_expired_def metaauth_Token_def u)
  have x: "metaauth_IsExpired (shared_file ?e) (now_ns ?e)"
    by (simp add: env0_def shared_expired_def metaauth_IsExpired_def u now0_def second_def
        Time_After_def time_Unix_def time_Now_def int64_def unixToInternal_def)
  have h: "META_TOKEN ?e = [] \<and> own_config ?e = Inr no_config \<and> AccessToken no_config = [] \<and>
           metaauth_Token (shared_file ?e) = Inr ''SHARED'' \<and> ''SHARED'' \<noteq> []"
    using t by (simp add: env0_def no_config_def)
  have s: "stderr world0 = []"
    by (simp add: world0_def)
  from resolveToken_chain [of ?e world0 no_config "''SHARED''"] h
  have "resolveToken ?e world0 =
        (Inr ''SHARED'',
         world0\<lparr>stderr := stderr world0 @
           (if metaauth_IsExpired (shared_file ?e) (now_ns ?e)
            then [''warning: meta-auth token has expired '' @ em_dash @ '' run: meta-auth refresh'' @
                    [CHR 0x0A]]
            else if 0 \<le> metaauth_DaysUntilExpiry (shared_file ?e) (now_ns ?e) \<and>
                    metaauth_DaysUntilExpiry (shared_file ?e) (now_ns ?e) \<le> 7
            then [''warning: meta-auth token expires in '' @
                    fmt_d (metaauth_DaysUntilExpiry (shared_file ?e) (now_ns ?e)) @ '' day(s) '' @
                    em_dash @ '' run: meta-auth refresh'' @ [CHR 0x0A]]
            else [])\<rparr>)"
    by blast
  then show "resolveToken ?e world0 =
     (Inr ''SHARED'',
      world0\<lparr>stderr := [''warning: meta-auth token has expired '' @ em_dash @
                           '' run: meta-auth refresh'' @ [CHR 0x0A]]\<rparr>)"
    by (simp only: x s if_True append_Nil)
next
  have h: "META_TOKEN env0 = [] \<and> own_config env0 = Inr no_config \<and> AccessToken no_config = [] \<and>
           metaauth_Token (shared_file env0) = Inr []"
    by (simp add: env0_def no_config_def metaauth_Token_def)
  from resolveToken_chain [of env0 world0 no_config] h
  show "resolveToken env0 world0 =
     (Inl (Errorf (''not authenticated '' @ em_dash @ '' run: meta-auth login  (shared)'' @
                   [CHR 0x0A] @ ''or: meta-adlib auth set-token <token>  (local only)'')), world0)"
    by blast
next
  let ?e = "env0\<lparr>own_config := Inl (Lib ''unexpected end of JSON input'')\<rparr>"
  have h: "META_TOKEN ?e = [] \<and> own_config ?e = Inl (Lib ''unexpected end of JSON input'')"
    by (simp add: env0_def)
  from resolveToken_chain [of ?e world0 _ _ "Lib ''unexpected end of JSON input''"] h
  show "resolveToken ?e world0 =
     (Inl (Wrap ''failed to load config: '' (Lib ''unexpected end of JSON input'')), world0)"
    by blast
next
  let ?e = "env0\<lparr>shared_file := ReadError ''permission denied''\<rparr>"
  have h: "META_TOKEN ?e = [] \<and> own_config ?e = Inr no_config \<and> AccessToken no_config = [] \<and>
           metaauth_Token (shared_file ?e) = Inl (Lib ''permission denied'')"
    by (simp add: env0_def no_config_def metaauth_Token_def)
  from resolveToken_chain [of ?e world0 no_config _ "Lib ''permission denied''"] h
  show "resolveToken ?e world0 =
     (Inl (Wrap ''failed to read meta-auth config: '' (Lib ''permission denied'')), world0)"
    by blast
qed

text \<open>
  The claim as it is written fails when the shared store cannot be read: the environment
  and the local store hold no token, the shared store yields none, and the error is not the
  one that names the two remedies.
\<close>

theorem resolveToken_unreadable_counterexample:
  "META_TOKEN (env0\<lparr>shared_file := ReadError ''permission denied''\<rparr>) = [] \<and>
   own_config (env0\<lparr>shared_file := ReadError ''permission denied''\<rparr>) = Inr no_config \<and>
   AccessToken no_config = [] \<and>
   metaauth_Token (ReadError ''permission denied'') = Inl (Lib ''permission denied'') \<and>
   resolveToken (env0\<lparr>shared_file := ReadError ''permission denied''\<rparr>) world0 =
     (Inl (Wrap ''failed to read meta-auth config: '' (Lib ''permission denied'')), world0) \<and>
   Wrap ''failed to read meta-auth config: '' (Lib ''permission denied'') \<noteq> Errorf not_authenticated"
  by (simp add: env0_def no_config_def metaauth_Token_def resolveToken_def)








section \<open>Letter case, repeated members and wrap-around\<close>

text \<open>
  The decoders on members whose names differ from the field's in letter case, and on
  repeated members: the error object is found under \<^verbatim>\<open>Error\<close>, a later \<^verbatim>\<open>null\<close> resets
  it, and the usage header and the shared credential file are read under capital names.
\<close>

lemma fold_name_capitals:
  "fold_name ''Error'' = ''error''" "fold_name ''CALL_COUNT'' = ''call_count''"
  "fold_name ''ACCESS_TOKEN'' = ''access_token''" "fold_name ''Access_Token'' = ''access_token''"
  "fold_name ''Data'' = ''data''" "fold_name ''Paging'' = ''paging''" "fold_name ''Next'' = ''next''"
  "fold_name [CHR ''t'', CHR ''o'', CHR 0xE2, CHR 0x84, CHR 0xAA, CHR ''e'', CHR ''n''] = ''token''"
  by (simp_all add: lower_def)

lemma error_under_capital_name:
  "unmarshal_errResp (json_payload (JObj [(''Error'', JObj [(''Code'', JNum 190)])])) =
     Some (Some \<lparr>Code = 190, Message = [], Type = [], Subcode = 0\<rparr>)"
  by (simp add: unmarshal_errResp_def json_payload_def errResp_field_def unmarshal_MetaError_def
      MetaError_field_def zero_MetaError_def fits_int64_def lower_def)

lemma error_reset_by_null:
  "unmarshal_errResp (json_payload (JObj [(''error'', JObj [(''code'', JNum 190)]),
                                          (''error'', JNull)])) = Some None"
  by (simp add: unmarshal_errResp_def json_payload_def errResp_field_def unmarshal_MetaError_def
      MetaError_field_def zero_MetaError_def fits_int64_def)

lemma error_mistyped_under_capital_name:
  "unmarshal_errResp (json_payload (JObj [(''error'', JObj [(''code'', JNum 190),
                                                            (''CODE'', JStr ''190'')])])) = None"
  by (simp add: unmarshal_errResp_def json_payload_def errResp_field_def unmarshal_MetaError_def
      MetaError_field_def zero_MetaError_def fits_int64_def lower_def)

lemma page_under_capital_names:
  "unmarshal_page (json_payload (JObj [(''Data'', JArr d),
                                       (''Paging'', JObj [(''Next'', JStr nx)])])) =
     Some \<lparr>Data = d, Paging = Some \<lparr>Cursors = None, Next = nx, Previous = []\<rparr>\<rparr>"
  by (simp add: unmarshal_page_def json_payload_def page_field_def Paging_field_def lower_def)

lemma usage_under_capital_name:
  "checkRateLimit (json_payload (JObj [(''CALL_COUNT'', JNum 80)])) w =
     w\<lparr>stderr := stderr w @ [rate_warning 80]\<rparr>"
  by (simp add: checkRateLimit_def json_payload_def unmarshal_usage_def usage_field_def
      fits_int64_def lower_def Quote_def quote_byte_def)

lemma shared_token_under_capital_name:
  "metaauth_Token (Contents (json_payload (JObj [(''ACCESS_TOKEN'', JStr ''SHARED'')]))) =
     Inr ''SHARED''"
  by (simp add: metaauth_Token_def unmarshal_sharedConfig_def sharedConfig_field_def
      json_payload_def lower_def)

text \<open>
  An expiry at the greatest 64-bit integer wraps around in \<^verbatim>\<open>time.Unix\<close>: the token
  counts as expired. An expiry 300 years ahead is more than a \<^verbatim>\<open>Duration\<close> holds: the
  days are those of the greatest one. A lifetime near the greatest 64-bit integer makes
  the sum of \<open>metaTokenFetch\<close> wrap around to a negative expiry.
\<close>

lemma expiry_wraps_around:
  "metaauth_IsExpired
     (Contents (json_payload (JObj [(''access_token'', JStr ''SHARED''),
                                    (''token_expires_at'', JNum 9223372036854775807)]))) now0"
  by (simp add: metaauth_IsExpired_def unmarshal_sharedConfig_def sharedConfig_field_def
      json_payload_def fits_int64_def Time_After_def time_Unix_def time_Now_def int64_def
      unixToInternal_def now0_def second_def)

lemma days_saturate:
  "metaauth_DaysUntilExpiry
     (Contents (json_payload (JObj [(''access_token'', JStr ''SHARED''),
                                    (''token_expires_at'', JNum 11160800000)]))) now0 = 106751"
  by (simp add: metaauth_DaysUntilExpiry_def unmarshal_sharedConfig_def sharedConfig_field_def
      json_payload_def fits_int64_def time_Until_def Time_Sub_def time_Unix_def time_Now_def
      int64_def unixToInternal_def now0_def second_def maxDuration_def minDuration_def)

lemma lifetime_wraps_around:
  "metaTokenFetch env0 request0
     (serving [Responded \<lparr>StatusCode = 200, X_App_Usage = no_header,
        Body = Inr (json_payload (JObj [(''access_token'', JStr ''LONG''),
                 (''expires_in'', JNum 9223372036854775807)]))\<rparr>]) =
   Some (Inr (''LONG'', - 9223372035154775809),
         world0\<lparr>transport := [], requests := [request0]\<rparr>)"
  by (simp add: metaTokenFetch_def Do_def serving_def world0_def json_payload_def
      unmarshal_tokenResponse_def tokenResponse_field_def fits_int64_def int64_def env0_def
      now0_def second_def)

end
